theory Spec2Isabelle
  imports Complex_Main
begin

section \<open>Dungeon Adventure: the simulation core of Game.py and the tile map of tiles.py\<close>

text \<open>
  The development embeds the parts of \<^verbatim>\<open>src/model/Game.py\<close> and
  \<^verbatim>\<open>src/model/tiles.py\<close> that carry logic: hero selection and creation, the
  per-frame \<^verbatim>\<open>update\<close>, the room change, the win/loss evaluation, the room bounds,
  saving and loading, and the construction of a tile map. Objects that Python shares
  by reference (the hero held both by \<^verbatim>\<open>_heroes\<close> and by \<^verbatim>\<open>_active_hero\<close>)
  live in an explicit store. Exceptions are values. A quantity that Python keeps in a
  float (seconds, a camera coordinate) is the rational number the float stands for;
  comparisons of floats are exact, and the one float computation of Game.py that
  rounds, the smoothing of the camera, is a parameter of the model.
\<close>

subsection \<open>Enumerations and exceptions\<close>

datatype HeroType = KNIGHT | ARCHER | CLERIC

datatype GameState = MENU | PLAYING | PAUSED | GAME_OVER | VICTORY | HERO_SELECT

text \<open>
  Modelled from the spec: the enumeration \<^verbatim>\<open>DungeonTemplate\<close> of
  \<^verbatim>\<open>RoomDungeonSystem.py\<close> is not among the sources. Game.py names its members
  \<^verbatim>\<open>SQUARE\<close> and \<^verbatim>\<open>DEMO\<close>, the two the specification lists.
\<close>

datatype DungeonTemplate = SQUARE | DEMO

datatype error = ValueError | KeyError | TypeError | AttributeError | RuntimeError | IOError

text \<open>The \<^verbatim>\<open>name\<close> of an enumeration member and the lookup \<^verbatim>\<open>HeroType[name]\<close>.\<close>

fun HeroType_name :: "HeroType \<Rightarrow> string" where
  "HeroType_name KNIGHT = ''KNIGHT''"
| "HeroType_name ARCHER = ''ARCHER''"
| "HeroType_name CLERIC = ''CLERIC''"

definition HeroType_getitem :: "string \<Rightarrow> error + HeroType" where
  "HeroType_getitem s =
     (if s = ''KNIGHT'' then Inr KNIGHT
      else if s = ''ARCHER'' then Inr ARCHER
      else if s = ''CLERIC'' then Inr CLERIC
      else Inl KeyError)"

fun DungeonTemplate_name :: "DungeonTemplate \<Rightarrow> string" where
  "DungeonTemplate_name SQUARE = ''SQUARE''"
| "DungeonTemplate_name DEMO = ''DEMO''"

definition DungeonTemplate_getitem :: "string \<Rightarrow> error + DungeonTemplate" where
  "DungeonTemplate_getitem s =
     (if s = ''SQUARE'' then Inr SQUARE
      else if s = ''DEMO'' then Inr DEMO
      else Inl KeyError)"

subsection \<open>Actors, rooms and the dungeon\<close>

text \<open>
  The hero classes (\<^verbatim>\<open>Knight\<close>, \<^verbatim>\<open>Archer\<close>, \<^verbatim>\<open>Cleric\<close>) and
  \<^verbatim>\<open>DemonBoss\<close> are outside the sources; a hero and an enemy are the attributes
  that Game.py reads and writes. Positions and sizes are integers, as the annotations
  of \<^verbatim>\<open>_create_hero\<close> and \<^verbatim>\<open>_check_door_traversal\<close> say;
  \<open>hero_velocity_y\<close> is \<open>None\<close> for a hero without the attribute
  \<^verbatim>\<open>velocity_y\<close>.
\<close>

record hero =
  hero_kind :: HeroType
  hero_x :: int
  hero_y :: int
  hero_width :: int
  hero_height :: int
  hero_health :: int
  hero_is_alive :: bool
  hero_ground_y :: int
  hero_has_projectile_manager :: bool
  hero_attack_cooldown_remaining :: rat
  hero_special_cooldown_remaining :: rat
  hero_velocity_y :: "rat option"

record enemy =
  enemy_is_boss :: bool
  enemy_x :: int
  enemy_y :: int
  enemy_is_alive :: bool

text \<open>
  Modelled from the spec: \<^verbatim>\<open>Room\<close> and \<^verbatim>\<open>DungeonManager\<close> of
  \<^verbatim>\<open>RoomDungeonSystem.py\<close> are not among the sources. A room has a grid
  coordinate, a pixel size, the top of its floor and a kind tag; the dungeon is a
  grid-addressed collection of rooms that tracks the current room as one coordinate.
\<close>

datatype RoomKind = START | NORMAL | BOSS

record room =
  room_coord :: "int \<times> int"
  room_width :: int
  room_height :: int
  floor_y :: int
  room_kind :: RoomKind

definition is_boss_room :: "room \<Rightarrow> bool" where
  "is_boss_room r = (room_kind r = BOSS)"

definition is_start_room :: "room \<Rightarrow> bool" where
  "is_start_room r = (room_kind r = START)"

record dungeon_manager =
  dm_rooms :: "((int \<times> int) \<times> room) list"
  dm_current :: "int \<times> int"

definition get_current_room :: "dungeon_manager \<Rightarrow> room option" where
  "get_current_room dm = map_of (dm_rooms dm) (dm_current dm)"

definition get_current_room_position :: "dungeon_manager \<Rightarrow> int \<times> int" where
  "get_current_room_position dm = dm_current dm"

text \<open>
  Modelled from the spec: \<^verbatim>\<open>set_current_room_by_coordinates\<close> moves the tracked
  coordinate to a room of the grid; Game.py calls it with the comment
  \<^verbatim>\<open>should exist now\<close>. A coordinate without a room leaves the dungeon as it is.
\<close>

definition set_current_room_by_coordinates :: "int \<Rightarrow> int \<Rightarrow> dungeon_manager \<Rightarrow> dungeon_manager" where
  "set_current_room_by_coordinates c r dm =
     (case map_of (dm_rooms dm) (c, r) of
        None \<Rightarrow> dm
      | Some _ \<Rightarrow> dm\<lparr>dm_current := (c, r)\<rparr>)"

subsection \<open>The transition manager\<close>

text \<open>
  Modelled from the spec: \<^verbatim>\<open>RoomTransitionManager\<close> is not among the sources.
  It is IDLE or TRANSITIONING; \<^verbatim>\<open>start_transition\<close> is ignored while a transition
  is in flight; \<^verbatim>\<open>update(dt)\<close> advances the elapsed time, invokes the completion
  callback exactly once when the elapsed time crosses the midpoint of the duration,
  and returns to IDLE when the elapsed time reaches the duration. The callback is
  always \<^verbatim>\<open>Game._complete_room_transition\<close>, so the manager reports whether the
  callback fires and \<^verbatim>\<open>Game.update\<close> runs it.
\<close>

record transition_manager =
  is_transitioning :: bool
  tm_elapsed :: rat
  tm_duration :: rat
  tm_callback_pending :: bool

definition start_transition :: "rat \<Rightarrow> transition_manager \<Rightarrow> transition_manager" where
  "start_transition duration tm =
     (if is_transitioning tm then tm
      else \<lparr>is_transitioning = True, tm_elapsed = 0, tm_duration = duration,
            tm_callback_pending = True\<rparr>)"

definition tm_update :: "rat \<Rightarrow> transition_manager \<Rightarrow> transition_manager \<times> bool" where
  "tm_update dt tm =
     (if \<not> is_transitioning tm then (tm, False)
      else
        let e = tm_elapsed tm + dt;
            fire = (tm_callback_pending tm \<and> tm_duration tm \<le> 2 * e);
            done = (tm_duration tm \<le> e)
        in (tm\<lparr>tm_elapsed := e,
                tm_callback_pending := (tm_callback_pending tm \<and> \<not> fire),
                is_transitioning := \<not> done\<rparr>, fire))"

subsection \<open>The game object\<close>

datatype group_name =
  all_sprites | hero_sprites | enemy_sprites | projectile_sprites | platform_sprites
  | background_sprites | midground_sprites | foreground_sprites | damageable_sprites
  | solid_sprites

datatype sprite = HeroSprite nat | EnemySprite enemy

text \<open>
  \<^verbatim>\<open>_heroes\<close> is a dictionary from the selected hero type (which Python lets be
  \<^verbatim>\<open>None\<close>) to a hero object and
  \<^verbatim>\<open>_active_hero\<close> is a second reference to one of these objects: both hold a
  reference into \<open>hero_store\<close>, and \<open>next_ref\<close> is the next fresh reference.
  \<open>projectiles\<close> is the list \<^verbatim>\<open>projectile_manager.projectiles\<close> and \<open>dungeon\<close> is
  \<^verbatim>\<open>_dungeon_manager\<close>. The screen, the fonts, the buttons and the minimap belong
  to the presentation layer and are not part of the state; calls into the minimap are
  taken to return normally.
\<close>

record game =
  state :: GameState
  width :: int
  height :: int
  groups :: "group_name \<Rightarrow> sprite set"
  projectiles :: "(int \<times> int) list"
  transition :: transition_manager
  pending_door :: "nat option"
  heroes :: "(HeroType option \<times> nat) list"
  hero_store :: "nat \<Rightarrow> hero"
  next_ref :: nat
  enemies :: "enemy list"
  active_hero :: "nat option"
  camera_x :: rat
  camera_y :: rat
  selected_hero_type :: "HeroType option"
  hero_selection_made :: bool
  dungeon :: "dungeon_manager option"
  current_room :: "room option"
  play_time :: rat
  dungeon_template :: DungeonTemplate

text \<open>A dictionary assignment \<^verbatim>\<open>d[k] = v\<close> on an association list.\<close>

fun dict_set :: "'k \<Rightarrow> 'v \<Rightarrow> ('k \<times> 'v) list \<Rightarrow> ('k \<times> 'v) list" where
  "dict_set k v [] = [(k, v)]"
| "dict_set k v ((k', v') # kvs) =
     (if k' = k then (k, v) # kvs else (k', v') # dict_set k v kvs)"

definition set_game_state :: "GameState \<Rightarrow> game \<Rightarrow> game" where
  "set_game_state new_state g = g\<lparr>state := new_state\<rparr>"

subsection \<open>Win/loss evaluation\<close>

definition all_heroes_dead :: "game \<Rightarrow> bool" where
  "all_heroes_dead g = list_all (\<lambda>(k, a). \<not> hero_is_alive (hero_store g a)) (heroes g)"

definition all_enemies_dead :: "game \<Rightarrow> bool" where
  "all_enemies_dead g = list_all (\<lambda>e. \<not> enemy_is_alive e) (enemies g)"

definition check_game_state :: "game \<Rightarrow> game" where
  "check_game_state g =
     (if all_heroes_dead g then set_game_state GAME_OVER g
      else if enemies g \<noteq> [] \<and> all_enemies_dead g then set_game_state VICTORY g
      else g)"

subsection \<open>The feet-level hitbox of the door check\<close>

text \<open>
  The four local variables \<^verbatim>\<open>hero_x, hero_y, hero_width, hero_height\<close> of
  \<^verbatim>\<open>_check_door_traversal\<close>, as a rectangle (left, top, width, height).
\<close>

definition door_hitbox :: "hero \<Rightarrow> int \<times> int \<times> int \<times> int" where
  "door_hitbox h =
     (hero_x h + hero_width h div 4,
      hero_y h + hero_height h - 16,
      hero_width h div 2,
      16)"

subsection \<open>Python values at the API boundary\<close>

text \<open>
  \<^verbatim>\<open>select_hero\<close> and \<^verbatim>\<open>_create_hero\<close> check their arguments with
  \<^verbatim>\<open>isinstance\<close>, so an argument is any Python value.
\<close>

datatype pyval =
  PyNone | PyBool bool | PyInt int | PyFloat rat | PyStr string
  | PyHeroType HeroType | PyGameState GameState | PyList "pyval list"

fun isinstance_HeroType :: "pyval \<Rightarrow> bool" where
  "isinstance_HeroType (PyHeroType _) = True"
| "isinstance_HeroType _ = False"

text \<open>\<^verbatim>\<open>isinstance(v, (int, float))\<close>; \<^verbatim>\<open>bool\<close> is a subclass of \<^verbatim>\<open>int\<close>.\<close>

fun isinstance_int_float :: "pyval \<Rightarrow> bool" where
  "isinstance_int_float (PyInt _) = True"
| "isinstance_int_float (PyFloat _) = True"
| "isinstance_int_float (PyBool _) = True"
| "isinstance_int_float _ = False"

subsection \<open>Collaborators outside the sources\<close>

datatype key = K_SPACE | K_q | K_e | K_other nat

type_synonym keys = "key \<Rightarrow> bool"

text \<open>
  Game.py calls into classes that are not among the sources. Each such call is a
  parameter of the model, gathered in one record; a theorem about Game.py holds for
  every choice of them.
  \<^item> \<open>new_dungeon\<close>: the constructor \<^verbatim>\<open>DungeonManager((3, 3), csv, tileset, template)\<close>,
    which may raise;
  \<^item> \<open>new_hero\<close>: the constructors \<^verbatim>\<open>Knight(x, y)\<close>, \<^verbatim>\<open>Archer(x, y)\<close>,
    \<^verbatim>\<open>Cleric(x, y)\<close>;
  \<^item> \<open>new_boss\<close>: the constructor \<^verbatim>\<open>DemonBoss(x, y)\<close>;
  \<^item> \<open>spawn_position\<close>: \<^verbatim>\<open>get_player_spawn_position_for_current_room(width, height)\<close>;
  \<^item> \<open>get_pressed\<close>: the keyboard state that \<^verbatim>\<open>pygame.key.get_pressed()\<close> returns
    when \<^verbatim>\<open>_check_door_traversal\<close> polls it;
  \<^item> \<open>smooth old target\<close>: the double that Python computes for
    \<^verbatim>\<open>old + (target - old) * 0.1\<close> in \<^verbatim>\<open>_update_camera\<close>;
  \<^item> the remaining fields: the methods of heroes, enemies, sprite groups, the
    projectile and platform managers and the dungeon manager that the per-frame
    block of \<^verbatim>\<open>update\<close> calls.
\<close>

record collab =
  new_dungeon :: "DungeonTemplate \<Rightarrow> error + dungeon_manager"
  new_hero :: "HeroType \<Rightarrow> pyval \<Rightarrow> pyval \<Rightarrow> hero"
  new_boss :: "int \<Rightarrow> int \<Rightarrow> enemy"
  spawn_position :: "dungeon_manager \<Rightarrow> int \<Rightarrow> int \<Rightarrow> int \<times> int"
  activate_attack :: "nat \<Rightarrow> game \<Rightarrow> game"
  activate_special_ability :: "nat \<Rightarrow> game \<Rightarrow> game"
  handle_input :: "keys \<Rightarrow> nat \<Rightarrow> game \<Rightarrow> game"
  update_current_room_interactions ::
    "int \<Rightarrow> int \<Rightarrow> int \<Rightarrow> int \<Rightarrow> dungeon_manager \<Rightarrow> dungeon_manager"
  try_enter_walkthrough_door :: "int \<Rightarrow> int \<Rightarrow> dungeon_manager \<Rightarrow> bool \<times> dungeon_manager"
  try_enter_interactive_door :: "int \<Rightarrow> int \<Rightarrow> dungeon_manager \<Rightarrow> bool \<times> dungeon_manager"
  check_pillar_collection ::
    "int \<Rightarrow> int \<Rightarrow> int \<Rightarrow> int \<Rightarrow> dungeon_manager \<Rightarrow> dungeon_manager"
  sprites_update :: "rat \<Rightarrow> game \<Rightarrow> game"
  hero_enemy_collisions :: "game \<Rightarrow> game"
  projectile_collisions :: "game \<Rightarrow> game"
  platform_collisions :: "game \<Rightarrow> game"
  update_game_objects :: "rat \<Rightarrow> game \<Rightarrow> game"
  update_pillars :: "rat \<Rightarrow> dungeon_manager \<Rightarrow> dungeon_manager"
  get_pressed :: keys
  smooth :: "rat \<Rightarrow> rat \<Rightarrow> rat"

subsection \<open>Hero selection and creation\<close>

text \<open>
  A method that can raise returns \<open>Inl (e, g)\<close>, the exception with the game object as
  it is when the exception leaves the method, or \<open>Inr\<close> with its result.
\<close>

definition group_add :: "group_name \<Rightarrow> sprite \<Rightarrow> game \<Rightarrow> game" where
  "group_add n s g = g\<lparr>groups := (groups g)(n := insert s (groups g n))\<rparr>"

definition initialize_hero :: "nat \<Rightarrow> game \<Rightarrow> game" where
  "initialize_hero a g =
     group_add damageable_sprites (HeroSprite a)
       (group_add midground_sprites (HeroSprite a)
         (group_add hero_sprites (HeroSprite a)
           (group_add all_sprites (HeroSprite a) g)))"

definition create_hero ::
  "collab \<Rightarrow> pyval \<Rightarrow> pyval \<Rightarrow> pyval \<Rightarrow> game \<Rightarrow> (error \<times> game) + (nat option \<times> game)" where
  "create_hero C hero_type px py g =
     (case hero_type of
        PyHeroType t \<Rightarrow>
          if \<not> isinstance_int_float px \<or> \<not> isinstance_int_float py then Inl (ValueError, g)
          else
            let h0 = new_hero C t px py;
                h = (if t = KNIGHT then h0 else h0\<lparr>hero_has_projectile_manager := True\<rparr>);
                a = next_ref g;
                g1 = g\<lparr>hero_store := (hero_store g)(a := h), next_ref := Suc a\<rparr>
            in Inr (Some a, initialize_hero a g1)
      | _ \<Rightarrow> Inl (ValueError, g))"

definition cleanup :: "game \<Rightarrow> game" where
  "cleanup g = g\<lparr>heroes := [], enemies := [], groups := (\<lambda>_. {})\<rparr>"

definition initialize_dungeon :: "collab \<Rightarrow> game \<Rightarrow> (error \<times> game) + game" where
  "initialize_dungeon C g =
     (case selected_hero_type g of
        None \<Rightarrow> Inl (ValueError, g)
      | Some _ \<Rightarrow>
          (case new_dungeon C (dungeon_template g) of
             Inl e \<Rightarrow> Inl (e, g)
           | Inr dm \<Rightarrow>
               let g1 = g\<lparr>dungeon := Some dm, current_room := get_current_room dm\<rparr>
               in if current_room g1 = None then Inl (RuntimeError, g1) else Inr g1))"

definition hero_type_value :: "HeroType option \<Rightarrow> pyval" where
  "hero_type_value s = (case s of None \<Rightarrow> PyNone | Some t \<Rightarrow> PyHeroType t)"

definition place_new_hero :: "collab \<Rightarrow> room \<Rightarrow> nat \<Rightarrow> game \<Rightarrow> (error \<times> game) + game" where
  "place_new_hero C r a g =
     (case dungeon g of
        None \<Rightarrow> Inl (AttributeError, g)
      | Some dm \<Rightarrow>
          let h = hero_store g a;
              (start_x, start_y) = spawn_position C dm (hero_width h) (hero_height h);
              h1 = h\<lparr>hero_x := start_x, hero_y := start_y,
                     hero_ground_y := floor_y r - hero_height h\<rparr>;
              g1 = g\<lparr>hero_store := (hero_store g)(a := h1)\<rparr>
          in Inr (g1\<lparr>heroes := dict_set (selected_hero_type g1) a (heroes g1),
                     active_hero := Some a\<rparr>))"

definition initialize_game :: "collab \<Rightarrow> game \<Rightarrow> (error \<times> game) + game" where
  "initialize_game C g =
     (case initialize_dungeon C (cleanup g) of
        Inl e \<Rightarrow> Inl e
      | Inr g1 \<Rightarrow>
          (case current_room g1 of
             None \<Rightarrow> Inr g1
           | Some r \<Rightarrow>
               (case create_hero C (hero_type_value (selected_hero_type g1)) (PyInt 0) (PyInt 0) g1 of
                  Inl e \<Rightarrow> Inl e
                | Inr (None, g2) \<Rightarrow> Inr g2
                | Inr (Some a, g2) \<Rightarrow> place_new_hero C r a g2)))"

definition select_hero :: "collab \<Rightarrow> pyval \<Rightarrow> game \<Rightarrow> (error \<times> game) + game" where
  "select_hero C hero_type g =
     (case hero_type of
        PyHeroType t \<Rightarrow>
          initialize_game C
            (set_game_state PLAYING
              (g\<lparr>selected_hero_type := Some t, hero_selection_made := True\<rparr>))
      | _ \<Rightarrow> Inl (ValueError, g))"

subsection \<open>Room bounds\<close>

definition clamp_hero :: "room \<Rightarrow> hero \<Rightarrow> hero" where
  "clamp_hero r h =
     (let h1 = (if hero_x h < 0 then h\<lparr>hero_x := 0\<rparr> else h);
          h2 = (if hero_x h1 + hero_width h1 > room_width r
                then h1\<lparr>hero_x := room_width r - hero_width h1\<rparr> else h1);
          h3 = (if hero_y h2 + hero_height h2 > floor_y r
                then h2\<lparr>hero_y := floor_y r - hero_height h2\<rparr> else h2)
      in h3)"

definition enforce_room_bounds :: "game \<Rightarrow> game" where
  "enforce_room_bounds g =
     (case active_hero g of
        None \<Rightarrow> g
      | Some a \<Rightarrow>
          (case current_room g of
             None \<Rightarrow> g
           | Some r \<Rightarrow> g\<lparr>hero_store := (hero_store g)(a := clamp_hero r (hero_store g a))\<rparr>))"

subsection \<open>Room change\<close>

text \<open>
  \<^verbatim>\<open>random.randint(a, b)\<close> raises \<^verbatim>\<open>ValueError\<close> on an empty range and
  otherwise returns a number of the range; the source of randomness is a sequence of
  raw draws.
\<close>

type_synonym rng = "nat \<Rightarrow> nat"

definition randint :: "int \<Rightarrow> int \<Rightarrow> rng \<Rightarrow> error + (int \<times> rng)" where
  "randint a b rnd =
     (if b < a then Inl ValueError
      else Inr (a + int (rnd 0 mod nat (b - a + 1)), (\<lambda>n. rnd (Suc n))))"

text \<open>
  The loop \<^verbatim>\<open>for i in range(num_enemies)\<close> of \<^verbatim>\<open>_spawn_room_enemies\<close>: each
  round draws \<^verbatim>\<open>enemy_x\<close> (here \<open>ex\<close>) and computes \<^verbatim>\<open>enemy_y\<close>
  (here \<open>ey\<close>); the two lines that would
  create the enemy and append it to \<^verbatim>\<open>_enemies\<close> are comments in the source, so a
  round leaves the game object as it is.
\<close>

fun spawn_regular_enemies :: "nat \<Rightarrow> room \<Rightarrow> rng \<Rightarrow> game \<Rightarrow> (error \<times> game) + game" where
  "spawn_regular_enemies 0 r rnd g = Inr g"
| "spawn_regular_enemies (Suc n) r rnd g =
     (case randint 100 (room_width r - 100) rnd of
        Inl e \<Rightarrow> Inl (e, g)
      | Inr (ex, rnd') \<Rightarrow>
          let ey = floor_y r - 60
          in spawn_regular_enemies n r rnd' g)"

definition spawn_room_enemies :: "collab \<Rightarrow> rng \<Rightarrow> game \<Rightarrow> (error \<times> game) + game" where
  "spawn_room_enemies C rnd g =
     (case current_room g of
        None \<Rightarrow> Inr g
      | Some r \<Rightarrow>
          let g1 = g\<lparr>enemies := [], groups := (groups g)(enemy_sprites := {})\<rparr>
          in if is_boss_room r then
               let boss = new_boss C (room_width r div 2) (floor_y r - 100)
               in Inr (group_add all_sprites (EnemySprite boss)
                        (group_add enemy_sprites (EnemySprite boss)
                          (g1\<lparr>enemies := enemies g1 @ [boss]\<rparr>)))
             else if \<not> is_start_room r then
               (case randint 1 3 rnd of
                  Inl e \<Rightarrow> Inl (e, g1)
                | Inr (num_enemies, rnd') \<Rightarrow> spawn_regular_enemies (nat num_enemies) r rnd' g1)
             else Inr g1)"

definition handle_room_change :: "collab \<Rightarrow> rng \<Rightarrow> game \<Rightarrow> (error \<times> game) + game" where
  "handle_room_change C rnd g =
     (case spawn_room_enemies C rnd (g\<lparr>projectiles := []\<rparr>) of
        Inl e \<Rightarrow> Inl e
      | Inr g1 \<Rightarrow>
          (case current_room g1 of
             None \<Rightarrow> Inl (AttributeError, g1)
           | Some r \<Rightarrow> Inr g1))"

definition reposition_hero_after_door_traversal :: "collab \<Rightarrow> game \<Rightarrow> (error \<times> game) + game" where
  "reposition_hero_after_door_traversal C g =
     (case active_hero g of
        None \<Rightarrow> Inr g
      | Some a \<Rightarrow>
          (case current_room g of
             None \<Rightarrow> Inr g
           | Some r \<Rightarrow>
               (case dungeon g of
                  None \<Rightarrow> Inl (AttributeError, g)
                | Some dm \<Rightarrow>
                    let h = hero_store g a;
                        (spawn_x, spawn_y) = spawn_position C dm (hero_width h) (hero_height h);
                        h1 = h\<lparr>hero_x := spawn_x, hero_y := spawn_y,
                               hero_ground_y := floor_y r - hero_height h\<rparr>
                    in Inr (g\<lparr>hero_store := (hero_store g)(a := h1)\<rparr>))))"

text \<open>The camera teleport of \<^verbatim>\<open>_complete_room_transition\<close>.\<close>

definition teleport_camera :: "game \<Rightarrow> game" where
  "teleport_camera g =
     (case active_hero g of
        None \<Rightarrow> g
      | Some a \<Rightarrow>
          (case current_room g of
             None \<Rightarrow> g
           | Some r \<Rightarrow>
               let h = hero_store g a;
                   target_camera_x = hero_x h - width g div 2;
                   target_camera_y = hero_y h - height g div 2;
                   max_camera_x = max 0 (room_width r - width g);
                   max_camera_y = max 0 (room_height r - height g)
               in g\<lparr>camera_x := of_int (max 0 (min target_camera_x max_camera_x)),
                     camera_y := of_int (max 0 (min target_camera_y max_camera_y))\<rparr>))"

definition complete_room_transition :: "collab \<Rightarrow> rng \<Rightarrow> game \<Rightarrow> (error \<times> game) + game" where
  "complete_room_transition C rnd g =
     (case dungeon g of
        None \<Rightarrow> Inl (AttributeError, g)
      | Some dm \<Rightarrow>
          (case reposition_hero_after_door_traversal C (g\<lparr>current_room := get_current_room dm\<rparr>) of
             Inl e \<Rightarrow> Inl e
           | Inr g1 \<Rightarrow>
               (case handle_room_change C rnd (teleport_camera g1) of
                  Inl e \<Rightarrow> Inl e
                | Inr g2 \<Rightarrow> Inr (g2\<lparr>pending_door := None\<rparr>))))"

definition start_room_transition :: "nat option \<Rightarrow> game \<Rightarrow> game" where
  "start_room_transition door g =
     (if is_transitioning (transition g) then g
      else g\<lparr>pending_door := door, transition := start_transition (8 / 10) (transition g)\<rparr>)"

subsection \<open>The per-frame update\<close>

text \<open>
  \<^verbatim>\<open>_check_door_traversal\<close> does not see the keys that \<^verbatim>\<open>update\<close> received: it
  polls the keyboard itself for the E key.
\<close>

definition check_door_traversal :: "collab \<Rightarrow> game \<Rightarrow> (error \<times> game) + game" where
  "check_door_traversal C g =
     (case current_room g of
        None \<Rightarrow> Inr g
      | Some r \<Rightarrow>
          (case active_hero g of
             None \<Rightarrow> Inr g
           | Some a \<Rightarrow>
               let (hx, hy, hw, hh) = door_hitbox (hero_store g a)
               in (case dungeon g of
                     None \<Rightarrow> Inl (AttributeError, g)
                   | Some dm \<Rightarrow>
                       let dm1 = update_current_room_interactions C hx hy hw hh dm;
                           (entered, dm2) = try_enter_walkthrough_door C hx hy dm1;
                           g1 = g\<lparr>dungeon := Some dm2\<rparr>
                       in if entered then Inr (start_room_transition None g1)
                          else if get_pressed C K_e then
                            let (entered', dm3) = try_enter_interactive_door C hx hy dm2;
                                g2 = g\<lparr>dungeon := Some dm3\<rparr>
                            in if entered' then Inr (start_room_transition None g2) else Inr g2
                          else Inr g1)))"

definition check_pillar :: "collab \<Rightarrow> game \<Rightarrow> (error \<times> game) + game" where
  "check_pillar C g =
     (case current_room g of
        None \<Rightarrow> Inr g
      | Some r \<Rightarrow>
          (case active_hero g of
             None \<Rightarrow> Inr g
           | Some a \<Rightarrow>
               (case dungeon g of
                  None \<Rightarrow> Inl (AttributeError, g)
                | Some dm \<Rightarrow>
                    let h = hero_store g a
                    in Inr (g\<lparr>dungeon := Some (check_pillar_collection C (hero_x h) (hero_y h)
                                                (hero_width h) (hero_height h) dm)\<rparr>))))"

text \<open>
  The hero part of \<^verbatim>\<open>update\<close>: the attack and the special ability behind their
  cooldowns, the hero's own input handling, the door check and the pillar check.
  Every line reads \<^verbatim>\<open>self._active_hero\<close> again.
\<close>

definition hero_attack_step :: "collab \<Rightarrow> keys \<Rightarrow> game \<Rightarrow> (error \<times> game) + game" where
  "hero_attack_step C ks g =
     (if ks K_SPACE then
        (case active_hero g of
           None \<Rightarrow> Inl (AttributeError, g)
         | Some a \<Rightarrow>
             if hero_attack_cooldown_remaining (hero_store g a) \<le> 0
             then Inr (activate_attack C a g) else Inr g)
      else Inr g)"

definition hero_special_step :: "collab \<Rightarrow> keys \<Rightarrow> game \<Rightarrow> (error \<times> game) + game" where
  "hero_special_step C ks g =
     (if ks K_q then
        (case active_hero g of
           None \<Rightarrow> Inl (AttributeError, g)
         | Some a \<Rightarrow>
             if hero_special_cooldown_remaining (hero_store g a) \<le> 0
             then Inr (activate_special_ability C a g) else Inr g)
      else Inr g)"

definition hero_input_step :: "collab \<Rightarrow> keys \<Rightarrow> game \<Rightarrow> (error \<times> game) + game" where
  "hero_input_step C ks g =
     (case active_hero g of
        None \<Rightarrow> Inl (AttributeError, g)
      | Some a \<Rightarrow> Inr (handle_input C ks a g))"

definition raising_then ::
  "(error \<times> game) + game \<Rightarrow> (game \<Rightarrow> (error \<times> game) + game) \<Rightarrow> (error \<times> game) + game" where
  "raising_then r f = (case r of Inl e \<Rightarrow> Inl e | Inr g \<Rightarrow> f g)"

definition hero_phase :: "collab \<Rightarrow> keys \<Rightarrow> game \<Rightarrow> (error \<times> game) + game" where
  "hero_phase C ks g =
     (case active_hero g of
        None \<Rightarrow> Inr g
      | Some a \<Rightarrow>
          if hero_is_alive (hero_store g a) then
            raising_then (hero_attack_step C ks g) (\<lambda>g1.
            raising_then (hero_special_step C ks g1) (\<lambda>g2.
            raising_then (hero_input_step C ks g2) (\<lambda>g3.
            raising_then (check_door_traversal C g3) (\<lambda>g4.
            check_pillar C g4))))
          else Inr g)"

text \<open>\<^verbatim>\<open>_handle_hero_floor_collision\<close>: every living hero is kept above the floor.\<close>

definition floor_hero :: "int \<Rightarrow> hero \<Rightarrow> hero" where
  "floor_hero fy h =
     (if hero_is_alive h \<and> hero_y h + hero_height h > fy
      then h\<lparr>hero_y := fy - hero_height h,
              hero_velocity_y := (case hero_velocity_y h of None \<Rightarrow> None | Some _ \<Rightarrow> Some 0)\<rparr>
      else h)"

definition handle_hero_floor_collision :: "game \<Rightarrow> game" where
  "handle_hero_floor_collision g =
     (case current_room g of
        None \<Rightarrow> g
      | Some r \<Rightarrow>
          g\<lparr>hero_store :=
              fold (\<lambda>(k, a) st. st(a := floor_hero (floor_y r) (st a))) (heroes g) (hero_store g)\<rparr>)"

definition handle_collisions :: "collab \<Rightarrow> game \<Rightarrow> game" where
  "handle_collisions C g =
     handle_hero_floor_collision
       (platform_collisions C (projectile_collisions C (hero_enemy_collisions C g)))"

text \<open>
  \<^verbatim>\<open>_update_camera\<close>: the smoothed coordinates come from \<open>smooth\<close>, the clamping
  to the room compares numbers and is exact.
\<close>

definition update_camera :: "collab \<Rightarrow> game \<Rightarrow> game" where
  "update_camera C g =
     (case active_hero g of
        None \<Rightarrow> g
      | Some a \<Rightarrow>
          (case current_room g of
             None \<Rightarrow> g
           | Some r \<Rightarrow>
               let h = hero_store g a;
                   target_x = of_int (hero_x h - width g div 2);
                   target_y = of_int (hero_y h - height g div 2);
                   new_x = smooth C (camera_x g) target_x;
                   new_y = smooth C (camera_y g) target_y;
                   max_x = of_int (max 0 (room_width r - width g));
                   max_y = of_int (max 0 (room_height r - height g))
               in g\<lparr>camera_x := max 0 (min new_x max_x),
                     camera_y := max 0 (min new_y max_y)\<rparr>))"

text \<open>
  The block of \<^verbatim>\<open>update\<close> under \<^verbatim>\<open>if not self._transition_manager.is_transitioning\<close>.
\<close>

definition playing_tick :: "collab \<Rightarrow> rat \<Rightarrow> keys \<Rightarrow> game \<Rightarrow> (error \<times> game) + game" where
  "playing_tick C dt ks g =
     raising_then (hero_phase C ks g) (\<lambda>g1.
       let g2 = check_game_state
                  (update_camera C
                    (update_game_objects C dt
                      (handle_collisions C (sprites_update C dt g1))))
       in (case dungeon g2 of
             None \<Rightarrow> Inl (AttributeError, g2)
           | Some dm \<Rightarrow> Inr (g2\<lparr>dungeon := Some (update_pillars C dt dm)\<rparr>)))"

text \<open>
  \<^verbatim>\<open>self._transition_manager.update(dt)\<close>: the timer advances and, when the manager
  invokes its callback, \<^verbatim>\<open>_complete_room_transition\<close> runs inside that call.
\<close>

definition transition_step :: "collab \<Rightarrow> rng \<Rightarrow> rat \<Rightarrow> game \<Rightarrow> (error \<times> game) + game" where
  "transition_step C rnd dt g =
     (let (tm', fire) = tm_update dt (transition g);
          g1 = g\<lparr>transition := tm'\<rparr>
      in if fire then complete_room_transition C rnd g1 else Inr g1)"

definition update :: "collab \<Rightarrow> rng \<Rightarrow> rat \<Rightarrow> keys \<Rightarrow> game \<Rightarrow> (error \<times> game) + game" where
  "update C rnd dt ks g =
     (if state g \<noteq> PLAYING then Inr g
      else
        (case transition_step C rnd dt g of
           Inl e \<Rightarrow> Inl e
         | Inr g1 \<Rightarrow>
             let g2 = enforce_room_bounds g1
             in if \<not> is_transitioning (transition g2) then playing_tick C dt ks g2
                else Inr g2))"

subsection \<open>Saving and loading\<close>

text \<open>
  The persisted record is the dictionary that \<^verbatim>\<open>save_game\<close> builds. On loading,
  every key may be absent; a value has the type that \<^verbatim>\<open>save_game\<close> writes, a
  sequence may have any length and a name may be any string.
\<close>

record saved_state =
  sv_hero_type :: "string option"
  sv_hero_position :: "int list option"
  sv_hero_health :: "int option"
  sv_current_room :: "int list option"
  sv_dungeon_template :: "string option"
  sv_play_time :: "rat option"

text \<open>\<^verbatim>\<open>not game_state\<close> for a dictionary: it has no key.\<close>

definition dict_is_empty :: "saved_state \<Rightarrow> bool" where
  "dict_is_empty gs =
     (sv_hero_type gs = None \<and> sv_hero_position gs = None \<and> sv_hero_health gs = None
      \<and> sv_current_room gs = None \<and> sv_dungeon_template gs = None \<and> sv_play_time gs = None)"

text \<open>
  The dictionary of \<^verbatim>\<open>save_game\<close>; \<open>None\<close> when the method returns
  \<^verbatim>\<open>False\<close> before it reaches the persistence layer (no active hero or dungeon, or
  the \<^verbatim>\<open>AttributeError\<close> of \<^verbatim>\<open>None.name\<close> caught by the handler).
\<close>

definition save_game_record :: "game \<Rightarrow> saved_state option" where
  "save_game_record g =
     (case active_hero g of
        None \<Rightarrow> None
      | Some a \<Rightarrow>
          (case dungeon g of
             None \<Rightarrow> None
           | Some dm \<Rightarrow>
               (case selected_hero_type g of
                  None \<Rightarrow> None
                | Some t \<Rightarrow>
                    Some \<lparr>sv_hero_type = Some (HeroType_name t),
                          sv_hero_position = Some [hero_x (hero_store g a), hero_y (hero_store g a)],
                          sv_hero_health = Some (hero_health (hero_store g a)),
                          sv_current_room =
                            Some [fst (get_current_room_position dm), snd (get_current_room_position dm)],
                          sv_dungeon_template = Some (DungeonTemplate_name (dungeon_template g)),
                          sv_play_time = Some (play_time g)\<rparr>)))"

text \<open>
  \<open>persist\<close> is \<^verbatim>\<open>saveloadmanager.save_game(game_state, filename)\<close>, outside the
  sources: it reports whether the record was written.
\<close>

definition save_game :: "(saved_state \<Rightarrow> bool) \<Rightarrow> game \<Rightarrow> bool" where
  "save_game persist g =
     (case save_game_record g of None \<Rightarrow> False | Some gs \<Rightarrow> persist gs)"

definition set_hero_position :: "int list \<Rightarrow> game \<Rightarrow> (error \<times> game) + game" where
  "set_hero_position pos g =
     (case pos of
        [px, py] \<Rightarrow>
          (case active_hero g of
             None \<Rightarrow> Inl (AttributeError, g)
           | Some a \<Rightarrow>
               Inr (g\<lparr>hero_store := (hero_store g)(a := (hero_store g a)\<lparr>hero_x := px, hero_y := py\<rparr>)\<rparr>))
      | _ \<Rightarrow> Inl (ValueError, g))"

definition set_hero_health :: "int \<Rightarrow> game \<Rightarrow> (error \<times> game) + game" where
  "set_hero_health v g =
     (case active_hero g of
        None \<Rightarrow> Inl (AttributeError, g)
      | Some a \<Rightarrow>
          Inr (g\<lparr>hero_store := (hero_store g)(a := (hero_store g a)\<lparr>hero_health := v\<rparr>)\<rparr>))"

definition set_room_coords :: "int list \<Rightarrow> game \<Rightarrow> (error \<times> game) + game" where
  "set_room_coords coords g =
     (case dungeon g of
        None \<Rightarrow> Inl (AttributeError, g)
      | Some dm \<Rightarrow>
          (case coords of
             [c, r] \<Rightarrow> Inr (g\<lparr>dungeon := Some (set_current_room_by_coordinates c r dm)\<rparr>)
           | _ \<Rightarrow> Inl (TypeError, g)))"

text \<open>
  The part of \<^verbatim>\<open>load_game\<close> under the comment \<^verbatim>\<open>Rebuild game with saved data\<close>.
\<close>

definition rebuild_game ::
  "collab \<Rightarrow> HeroType \<Rightarrow> int list \<Rightarrow> int \<Rightarrow> int list \<Rightarrow> DungeonTemplate \<Rightarrow> game
     \<Rightarrow> (error \<times> game) + game" where
  "rebuild_game C t hero_pos health room_coords tpl g =
     raising_then (initialize_game C (g\<lparr>selected_hero_type := Some t, dungeon_template := tpl\<rparr>)) (\<lambda>g1.
     raising_then (set_hero_position hero_pos g1) (\<lambda>g2.
     raising_then (set_hero_health health g2) (\<lambda>g3.
     set_room_coords room_coords g3)))"

text \<open>
  \<^verbatim>\<open>load_game\<close>. \<open>loaded\<close> is what \<^verbatim>\<open>saveloadmanager.load_game_state(filename)\<close>
  returns, \<open>None\<close> for a missing file or corrupted data. The handler
  \<^verbatim>\<open>except Exception\<close> turns every exception into the result \<^verbatim>\<open>False\<close>, with the
  game object as the exception left it.
\<close>

definition load_game :: "collab \<Rightarrow> saved_state option \<Rightarrow> game \<Rightarrow> bool \<times> game" where
  "load_game C loaded g =
     (case loaded of
        None \<Rightarrow> (False, g)
      | Some gs \<Rightarrow>
          if dict_is_empty gs then (False, g)
          else
            (case sv_hero_type gs of None \<Rightarrow> (False, g) | Some tn \<Rightarrow>
            (case HeroType_getitem tn of Inl e \<Rightarrow> (False, g) | Inr t \<Rightarrow>
            (case sv_hero_position gs of None \<Rightarrow> (False, g) | Some hero_pos \<Rightarrow>
            (case sv_hero_health gs of None \<Rightarrow> (False, g) | Some health \<Rightarrow>
            (case sv_current_room gs of None \<Rightarrow> (False, g) | Some room_coords \<Rightarrow>
            (case sv_dungeon_template gs of None \<Rightarrow> (False, g) | Some dn \<Rightarrow>
            (case DungeonTemplate_getitem dn of Inl e \<Rightarrow> (False, g) | Inr tpl \<Rightarrow>
              let g1 = g\<lparr>play_time := (case sv_play_time gs of None \<Rightarrow> 0 | Some p \<Rightarrow> p)\<rparr>
              in (case rebuild_game C t hero_pos health room_coords tpl g1 of
                    Inl (e, g') \<Rightarrow> (False, g')
                  | Inr g' \<Rightarrow> (True, g'))))))))))"

text \<open>
  \<^verbatim>\<open>load_game_state\<close>, the second loader of Game.py, which takes the dictionary
  itself and assigns each field as soon as it has read it.
\<close>

definition load_game_state :: "collab \<Rightarrow> saved_state \<Rightarrow> game \<Rightarrow> bool \<times> game" where
  "load_game_state C gs g =
     (case sv_hero_type gs of None \<Rightarrow> (False, g) | Some tn \<Rightarrow>
     (case HeroType_getitem tn of Inl e \<Rightarrow> (False, g) | Inr t \<Rightarrow>
       let g1 = g\<lparr>selected_hero_type := Some t\<rparr>
       in (case sv_dungeon_template gs of None \<Rightarrow> (False, g1) | Some dn \<Rightarrow>
          (case DungeonTemplate_getitem dn of Inl e \<Rightarrow> (False, g1) | Inr tpl \<Rightarrow>
            (case initialize_game C (g1\<lparr>dungeon_template := tpl\<rparr>) of
               Inl (e, g') \<Rightarrow> (False, g')
             | Inr g2 \<Rightarrow>
                 (case sv_hero_position gs of None \<Rightarrow> (False, g2) | Some hero_pos \<Rightarrow>
                 (case set_hero_position hero_pos g2 of Inl (e, g') \<Rightarrow> (False, g') | Inr g3 \<Rightarrow>
                 (case sv_hero_health gs of None \<Rightarrow> (False, g3) | Some health \<Rightarrow>
                 (case set_hero_health health g3 of Inl (e, g') \<Rightarrow> (False, g') | Inr g4 \<Rightarrow>
                 (case sv_current_room gs of None \<Rightarrow> (False, g4) | Some room_coords \<Rightarrow>
                 (case set_room_coords room_coords g4 of
                    Inl (e, g') \<Rightarrow> (False, g')
                  | Inr g5 \<Rightarrow> (True, g5))))))))))))"

text \<open>
  The ways in which a load fails while \<^verbatim>\<open>load_game\<close> is still extracting data:
  no record, an empty record, a missing required key, or a name that is no member of
  its enumeration.
\<close>

definition extraction_fails :: "saved_state option \<Rightarrow> bool" where
  "extraction_fails loaded =
     (case loaded of
        None \<Rightarrow> True
      | Some gs \<Rightarrow>
          dict_is_empty gs
          \<or> sv_hero_type gs = None
          \<or> sv_hero_position gs = None
          \<or> sv_hero_health gs = None
          \<or> sv_current_room gs = None
          \<or> sv_dungeon_template gs = None
          \<or> (case sv_hero_type gs of None \<Rightarrow> True | Some tn \<Rightarrow> isl (HeroType_getitem tn))
          \<or> (case sv_dungeon_template gs of None \<Rightarrow> True
              | Some dn \<Rightarrow> isl (DungeonTemplate_getitem dn)))"

subsection \<open>The tile map of tiles.py\<close>

record tile =
  tile_image :: string
  tile_x :: int
  tile_y :: int

text \<open>
  A \<^verbatim>\<open>TileMap\<close> under construction: an attribute that has not been assigned yet
  is \<open>None\<close>.
\<close>

record tilemap =
  tile_size :: int
  start_x :: int
  start_y :: int
  tiles :: "tile list option"
  map_w :: "int option"
  map_h :: "int option"
  map_surface :: "(int \<times> int) option"

text \<open>
  What the constructor reaches outside tiles.py: the file system behind
  \<^verbatim>\<open>read_csv\<close>, \<^verbatim>\<open>spritesheet.parse_sprite\<close> and \<^verbatim>\<open>pygame.Surface\<close>; each may
  raise.
\<close>

record tile_env =
  read_csv :: "string \<Rightarrow> error + string list list"
  parse_sprite :: "string \<Rightarrow> error + unit"
  new_surface :: "int \<times> int \<Rightarrow> error + unit"

definition Tile_init :: "tile_env \<Rightarrow> string \<Rightarrow> int \<Rightarrow> int \<Rightarrow> error + tile" where
  "Tile_init E img tx ty =
     (case parse_sprite E img of
        Inl e \<Rightarrow> Inl e
      | Inr _ \<Rightarrow> Inr \<lparr>tile_image = img, tile_x = tx, tile_y = ty\<rparr>)"

text \<open>
  The inner loop of \<^verbatim>\<open>load_tiles\<close> over the cells of one row; the state is the
  tile map, the list of tiles and the column \<open>cx\<close>.
\<close>

fun load_row ::
  "tile_env \<Rightarrow> int \<Rightarrow> string list \<Rightarrow> tilemap \<times> tile list \<times> int \<Rightarrow> error + (tilemap \<times> tile list \<times> int)" where
  "load_row E cy [] st = Inr st"
| "load_row E cy (cell # cells) (self, ts, cx) =
     (if cell = ''0'' then
        load_row E cy cells
          (self\<lparr>start_x := cx * tile_size self, start_y := cy * tile_size self\<rparr>, ts, cx + 1)
      else if cell = ''1'' then
        (case Tile_init E ''ground.png'' (cx * tile_size self) (cy * tile_size self) of
           Inl e \<Rightarrow> Inl e
         | Inr t \<Rightarrow> load_row E cy cells (self, ts @ [t], cx + 1))
      else if cell = ''2'' then
        (case Tile_init E ''ground2.png'' (cx * tile_size self) (cy * tile_size self) of
           Inl e \<Rightarrow> Inl e
         | Inr t \<Rightarrow> load_row E cy cells (self, ts @ [t], cx + 1))
      else load_row E cy cells (self, ts, cx + 1))"

text \<open>The outer loop over the rows; \<open>cx\<close> is reset at the start of every row.\<close>

fun load_rows ::
  "tile_env \<Rightarrow> string list list \<Rightarrow> tilemap \<times> tile list \<times> int \<times> int
     \<Rightarrow> error + (tilemap \<times> tile list \<times> int \<times> int)" where
  "load_rows E [] st = Inr st"
| "load_rows E (row # rows) (self, ts, cx, cy) =
     (case load_row E cy row (self, ts, 0) of
        Inl e \<Rightarrow> Inl e
      | Inr (self', ts', cx') \<Rightarrow> load_rows E rows (self', ts', cx', cy + 1))"

text \<open>
  \<^verbatim>\<open>load_tiles(self, filename)\<close>, called with the list of its positional arguments:
  a call that does not pass exactly one raises \<^verbatim>\<open>TypeError\<close> before the body runs.
\<close>

definition load_tiles :: "tile_env \<Rightarrow> tilemap \<Rightarrow> string list \<Rightarrow> error + (tile list \<times> tilemap)" where
  "load_tiles E self args =
     (case args of
        [filename] \<Rightarrow>
          (case read_csv E filename of
             Inl e \<Rightarrow> Inl e
           | Inr rows \<Rightarrow>
               (case load_rows E rows (self, [], 0, 0) of
                  Inl e \<Rightarrow> Inl e
                | Inr (self', ts, cx, cy) \<Rightarrow>
                    Inr (ts, self'\<lparr>map_w := Some (cx * tile_size self'),
                                   map_h := Some (cy * tile_size self')\<rparr>)))
      | _ \<Rightarrow> Inl TypeError)"

definition TileMap_init :: "tile_env \<Rightarrow> string \<Rightarrow> error + tilemap" where
  "TileMap_init E filename =
     (let self = \<lparr>tile_size = 16, start_x = 0, start_y = 0, tiles = None, map_w = None,
                  map_h = None, map_surface = None\<rparr>
      in (case load_tiles E self [filename] of
            Inl e \<Rightarrow> Inl e
          | Inr (ts, self1) \<Rightarrow>
              let self2 = self1\<lparr>tiles := Some ts\<rparr>
              in (case (map_w self2, map_h self2) of
                    (Some w, Some h) \<Rightarrow>
                      (case new_surface E (w, h) of
                         Inl e \<Rightarrow> Inl e
                       | Inr _ \<Rightarrow>
                           let self3 = self2\<lparr>map_surface := Some (w, h)\<rparr>
                           in (case load_tiles E self3 [] of
                                 Inl e \<Rightarrow> Inl e
                               | Inr (ts', self4) \<Rightarrow> Inr self4))
                  | _ \<Rightarrow> Inl AttributeError)))"

subsection \<open>Concrete states\<close>

text \<open>The game object as \<^verbatim>\<open>Game.__init__\<close> leaves it, for a screen of the given size.\<close>

definition blank_hero :: hero where
  "blank_hero =
     \<lparr>hero_kind = KNIGHT, hero_x = 0, hero_y = 0, hero_width = 0, hero_height = 0,
      hero_health = 0, hero_is_alive = False, hero_ground_y = 0,
      hero_has_projectile_manager = False, hero_attack_cooldown_remaining = 0,
      hero_special_cooldown_remaining = 0, hero_velocity_y = None\<rparr>"

definition Game_init :: "int \<Rightarrow> int \<Rightarrow> game" where
  "Game_init w h =
     \<lparr>state = PLAYING, width = w, height = h, groups = (\<lambda>_. {}), projectiles = [],
      transition = \<lparr>is_transitioning = False, tm_elapsed = 0, tm_duration = 0,
                    tm_callback_pending = False\<rparr>,
      pending_door = None, heroes = [], hero_store = (\<lambda>_. blank_hero), next_ref = 0,
      enemies = [], active_hero = None, camera_x = 0, camera_y = 0,
      selected_hero_type = None, hero_selection_made = False, dungeon = None,
      current_room = None, play_time = 0, dungeon_template = SQUARE\<rparr>"

definition example_knight :: hero where
  "example_knight =
     \<lparr>hero_kind = KNIGHT, hero_x = 100, hero_y = 436, hero_width = 64, hero_height = 64,
      hero_health = 375, hero_is_alive = True, hero_ground_y = 436,
      hero_has_projectile_manager = False, hero_attack_cooldown_remaining = 0,
      hero_special_cooldown_remaining = 0, hero_velocity_y = None\<rparr>"

definition dead_enemy :: enemy where
  "dead_enemy = \<lparr>enemy_is_boss = False, enemy_x = 300, enemy_y = 440, enemy_is_alive = False\<rparr>"

text \<open>A run in which the only hero and the only enemy have both died.\<close>

definition both_dead_game :: game where
  "both_dead_game =
     (Game_init 800 600)
       \<lparr>heroes := [(Some KNIGHT, 0)],
        hero_store := (\<lambda>_. blank_hero)(0 := example_knight\<lparr>hero_health := 0, hero_is_alive := False\<rparr>),
        next_ref := 1,
        active_hero := Some 0,
        selected_hero_type := Some KNIGHT,
        enemies := [dead_enemy]\<rparr>"

text \<open>A run in which the hero lives and the only enemy has died.\<close>

definition enemy_dead_game :: game where
  "enemy_dead_game =
     (Game_init 800 600)
       \<lparr>heroes := [(Some KNIGHT, 0)],
        hero_store := (\<lambda>_. blank_hero)(0 := example_knight),
        next_ref := 1,
        active_hero := Some 0,
        selected_hero_type := Some KNIGHT,
        enemies := [dead_enemy]\<rparr>"

text \<open>
  A dungeon of three rooms in a row and collaborators that do nothing beyond what
  Game.py needs from them: the dungeon manager always builds this dungeon, a new hero
  is 64 by 64, the spawn position is 100 from the left wall, on the floor, no key is
  held down, and the camera smoothing of this machine does not round.
\<close>

definition start_room :: room where
  "start_room = \<lparr>room_coord = (0, 0), room_width = 1600, room_height = 600, floor_y = 500,
                  room_kind = START\<rparr>"

definition normal_room :: room where
  "normal_room = \<lparr>room_coord = (1, 0), room_width = 1600, room_height = 600, floor_y = 500,
                   room_kind = NORMAL\<rparr>"

definition boss_room :: room where
  "boss_room = \<lparr>room_coord = (2, 0), room_width = 1600, room_height = 600, floor_y = 500,
                 room_kind = BOSS\<rparr>"

definition example_dungeon :: dungeon_manager where
  "example_dungeon =
     \<lparr>dm_rooms = [((0, 0), start_room), ((1, 0), normal_room), ((2, 0), boss_room)],
      dm_current = (0, 0)\<rparr>"

definition example_collab :: collab where
  "example_collab =
     \<lparr>new_dungeon = (\<lambda>t. Inr example_dungeon),
      new_hero = (\<lambda>t px py. example_knight\<lparr>hero_kind := t\<rparr>),
      new_boss = (\<lambda>bx by. \<lparr>enemy_is_boss = True, enemy_x = bx, enemy_y = by, enemy_is_alive = True\<rparr>),
      spawn_position =
        (\<lambda>dm w h. case get_current_room dm of None \<Rightarrow> (0, 0) | Some r \<Rightarrow> (100, floor_y r - h)),
      activate_attack = (\<lambda>a g. g),
      activate_special_ability = (\<lambda>a g. g),
      handle_input = (\<lambda>ks a g. g),
      update_current_room_interactions = (\<lambda>hx hy hw hh dm. dm),
      try_enter_walkthrough_door = (\<lambda>hx hy dm. (False, dm)),
      try_enter_interactive_door = (\<lambda>hx hy dm. (False, dm)),
      check_pillar_collection = (\<lambda>hx hy hw hh dm. dm),
      sprites_update = (\<lambda>dt g. g),
      hero_enemy_collisions = (\<lambda>g. g),
      projectile_collisions = (\<lambda>g. g),
      platform_collisions = (\<lambda>g. g),
      update_game_objects = (\<lambda>dt g. g),
      update_pillars = (\<lambda>dt dm. dm),
      get_pressed = (\<lambda>k. False),
      smooth = (\<lambda>old target. old + (target - old) * (1 / 10))\<rparr>"

definition example_rng :: rng where
  "example_rng = (\<lambda>n. n)"

text \<open>
  The game object a call leaves behind, whether it returned or raised, and the run that
  \<^verbatim>\<open>select_hero(HeroType.KNIGHT)\<close> starts on a fresh game object.
\<close>

definition run_of :: "(error \<times> game) + game \<Rightarrow> game" where
  "run_of r = (case r of Inl (e, g) \<Rightarrow> g | Inr g \<Rightarrow> g)"

definition started_game :: game where
  "started_game = run_of (select_hero example_collab (PyHeroType KNIGHT) (Game_init 800 600))"

text \<open>
  The run during a room transition: the hero has walked to \<open>x = 1500\<close> and through a
  door, the dungeon manager has already moved to the room at coordinate \<open>c\<close>, and the
  transition of 0.8 seconds has been running for \<open>e\<close> seconds with its callback still
  to come. \<^verbatim>\<open>Game._current_room\<close> is still the start room.
\<close>

definition entering_room :: "int \<times> int \<Rightarrow> rat \<Rightarrow> game" where
  "entering_room c e =
     started_game
       \<lparr>dungeon := Some (example_dungeon\<lparr>dm_current := c\<rparr>),
        hero_store := (hero_store started_game)(0 := (hero_store started_game 0)\<lparr>hero_x := 1500\<rparr>),
        transition := \<lparr>is_transitioning = True, tm_elapsed = e, tm_duration = 8 / 10,
                       tm_callback_pending = True\<rparr>\<rparr>"

definition no_keys :: keys where
  "no_keys = (\<lambda>k. False)"

text \<open>
  Two persisted records: one whose \<^verbatim>\<open>hero_position\<close> has three entries, one without
  the key \<^verbatim>\<open>hero_health\<close>.
\<close>

definition long_position_save :: saved_state where
  "long_position_save =
     \<lparr>sv_hero_type = Some ''ARCHER'', sv_hero_position = Some [1, 2, 3],
      sv_hero_health = Some 10, sv_current_room = Some [1, 0],
      sv_dungeon_template = Some ''DEMO'', sv_play_time = Some 99\<rparr>"

definition no_health_save :: saved_state where
  "no_health_save =
     \<lparr>sv_hero_type = Some ''ARCHER'', sv_hero_position = Some [1, 2],
      sv_hero_health = None, sv_current_room = Some [1, 0],
      sv_dungeon_template = Some ''DEMO'', sv_play_time = Some 99\<rparr>"

text \<open>A hero 100 wide in a room 50 wide.\<close>

definition wide_hero_game :: game where
  "wide_hero_game =
     started_game
       \<lparr>hero_store := (hero_store started_game)(0 := (hero_store started_game 0)\<lparr>hero_x := 0, hero_width := 100\<rparr>),
        current_room := Some (start_room\<lparr>room_width := 50\<rparr>)\<rparr>"

text \<open>
  A level file of two rows, a sprite sheet that knows every image and a surface that
  can always be created.
\<close>

definition example_tile_env :: tile_env where
  "example_tile_env =
     \<lparr>read_csv = (\<lambda>f. Inr [[''1'', ''0''], [''2'', ''1'']]),
      parse_sprite = (\<lambda>i. Inr ()),
      new_surface = (\<lambda>s. Inr ())\<rparr>"

text \<open>
  The run after \<^verbatim>\<open>_complete_room_transition\<close> has run for the room at coordinate
  \<open>c\<close>.
\<close>

definition after_room_change :: "int \<times> int \<Rightarrow> game" where
  "after_room_change c =
     run_of (complete_room_transition example_collab example_rng (entering_room c (41 / 100)))"

text \<open>
  The tick on which the timer of a transition into the boss room crosses its midpoint.
\<close>

definition midpoint_result :: game where
  "midpoint_result =
     run_of (update example_collab example_rng (2 / 100) no_keys (entering_room (2, 0) (39 / 100)))"

text \<open>
  A run some time after the start: the hero has walked into the normal room, has lost
  health, and 42 seconds have been played.
\<close>

definition played_game :: game where
  "played_game =
     started_game
       \<lparr>dungeon := Some (example_dungeon\<lparr>dm_current := (1, 0)\<rparr>),
        current_room := Some normal_room,
        hero_store := (hero_store started_game)
                        (0 := (hero_store started_game 0)\<lparr>hero_x := 700, hero_health := 200\<rparr>),
        play_time := 42\<rparr>"

text \<open>
  A persisted record without the key \<^verbatim>\<open>dungeon_template\<close>.
\<close>

definition no_template_save :: saved_state where
  "no_template_save =
     \<lparr>sv_hero_type = Some ''ARCHER'', sv_hero_position = Some [1, 2],
      sv_hero_health = Some 10, sv_current_room = Some [1, 0],
      sv_dungeon_template = None, sv_play_time = Some 99\<rparr>"

section \<open>Properties\<close>

subsection \<open>Win/loss evaluation\<close>

lemma state_check_game_state:
  "state (check_game_state g) =
     (if all_heroes_dead g then GAME_OVER
      else if enemies g \<noteq> [] \<and> all_enemies_dead g then VICTORY
      else state g)"
  by (simp add: check_game_state_def set_game_state_def)

text \<open>
  C5, as stated, asks for VICTORY whenever the enemies list is non-empty and every enemy
  is dead. In the run where the only hero is dead too, the evaluation ends in GAME_OVER.
\<close>

theorem C5_victory_counterexample:
  "enemies both_dead_game \<noteq> [] \<and> all_enemies_dead both_dead_game
   \<and> state (check_game_state both_dead_game) \<noteq> VICTORY"
  by (simp add: state_check_game_state all_heroes_dead_def all_enemies_dead_def
      both_dead_game_def Game_init_def dead_enemy_def example_knight_def)

text \<open>
  C5, amended: on every win/loss evaluation, if every hero is dead the game state becomes
  GAME_OVER; if some hero is alive, the enemies list is non-empty and every enemy is dead,
  it becomes VICTORY; with an empty enemies list the evaluation never sets VICTORY (the
  state becomes GAME_OVER or stays what it was).
\<close>

theorem C5_check_game_state:
  "(all_heroes_dead g \<longrightarrow> state (check_game_state g) = GAME_OVER)
   \<and> (\<not> all_heroes_dead g \<and> enemies g \<noteq> [] \<and> all_enemies_dead g
        \<longrightarrow> state (check_game_state g) = VICTORY)
   \<and> (enemies g = [] \<longrightarrow>
        state (check_game_state g) = (if all_heroes_dead g then GAME_OVER else state g))"
  by (simp add: state_check_game_state)

theorem C5_check_game_state_witness:
  "all_heroes_dead both_dead_game
   \<and> state (check_game_state both_dead_game) = GAME_OVER
   \<and> \<not> all_heroes_dead enemy_dead_game \<and> enemies enemy_dead_game \<noteq> []
   \<and> all_enemies_dead enemy_dead_game
   \<and> state (check_game_state enemy_dead_game) = VICTORY
   \<and> enemies (Game_init 800 600) = []
   \<and> state (check_game_state (Game_init 800 600)) = GAME_OVER"
  using C5_check_game_state [of both_dead_game] C5_check_game_state [of enemy_dead_game]
    C5_check_game_state [of "Game_init 800 600"]
  by (simp add: all_heroes_dead_def all_enemies_dead_def both_dead_game_def
      enemy_dead_game_def Game_init_def dead_enemy_def example_knight_def)

text \<open>
  C9: when all heroes are dead and all enemies of a non-empty enemies list are dead as
  well, the evaluation ends in GAME_OVER, not VICTORY: the heroes are checked first.
\<close>

theorem C9_game_over_has_priority:
  "all_heroes_dead g \<Longrightarrow> enemies g \<noteq> [] \<Longrightarrow> all_enemies_dead g
   \<Longrightarrow> state (check_game_state g) = GAME_OVER \<and> state (check_game_state g) \<noteq> VICTORY"
  by (simp add: state_check_game_state)

theorem C9_game_over_has_priority_witness:
  "all_heroes_dead both_dead_game \<and> enemies both_dead_game \<noteq> []
   \<and> all_enemies_dead both_dead_game
   \<and> state (check_game_state both_dead_game) = GAME_OVER
   \<and> state (check_game_state both_dead_game) \<noteq> VICTORY"
proof -
  have h: "all_heroes_dead both_dead_game"
    by (simp add: all_heroes_dead_def both_dead_game_def Game_init_def example_knight_def)
  have e: "enemies both_dead_game \<noteq> []"
    by (simp add: both_dead_game_def Game_init_def)
  have d: "all_enemies_dead both_dead_game"
    by (simp add: all_enemies_dead_def both_dead_game_def Game_init_def dead_enemy_def)
  from C9_game_over_has_priority [OF h e d] h e d show ?thesis by simp
qed

subsection \<open>The feet-level hitbox\<close>

text \<open>
  C4, as stated, makes the hitbox one quarter of the hero's width wide. For a hero 64
  wide the hitbox is 32 wide: the source takes \<^verbatim>\<open>width // 2\<close>, "Half width".
\<close>

theorem C4_quarter_width_counterexample:
  "fst (snd (snd (door_hitbox example_knight))) = 32
   \<and> fst (snd (snd (door_hitbox example_knight))) \<noteq> hero_width example_knight div 4"
  by (simp add: door_hitbox_def example_knight_def)

text \<open>
  C4, amended: for every hero bounding box of non-negative width, the hitbox of the
  door-crossing check starts a quarter of the width (rounded down) in from the left
  edge, is half the hero's width wide (rounded down), 16 units tall and flush with the
  bottom of the full box; it lies between the left and right edges of the full box, and
  it is exactly centred when the width is a multiple of 4.
\<close>

theorem C4_door_hitbox:
  assumes "door_hitbox h = (hx, hy, hw, hh)" and "0 \<le> hero_width h"
  shows "hx = hero_x h + hero_width h div 4
    \<and> hw = hero_width h div 2
    \<and> hh = 16
    \<and> hy + hh = hero_y h + hero_height h
    \<and> hero_x h \<le> hx \<and> hx + hw \<le> hero_x h + hero_width h
    \<and> (4 dvd hero_width h \<longrightarrow> hx - hero_x h = (hero_x h + hero_width h) - (hx + hw))"
proof -
  from assms(1) have eqs:
    "hx = hero_x h + hero_width h div 4" "hy = hero_y h + hero_height h - 16"
    "hw = hero_width h div 2" "hh = 16"
    by (simp_all add: door_hitbox_def)
  have inner: "hero_width h div 4 + hero_width h div 2 \<le> hero_width h"
    using assms(2) by presburger
  have left: "0 \<le> hero_width h div 4"
    using assms(2) by presburger
  have centred: "4 dvd hero_width h \<longrightarrow>
      hero_width h div 4 = hero_width h - (hero_width h div 4 + hero_width h div 2)"
    by presburger
  from eqs inner left centred show ?thesis by auto
qed

theorem C4_door_hitbox_witness:
  "door_hitbox example_knight = (116, 484, 32, 16) \<and> 0 \<le> hero_width example_knight
   \<and> 4 dvd hero_width example_knight
   \<and> (116::int) - hero_x example_knight
       = (hero_x example_knight + hero_width example_knight) - (116 + 32)"
proof -
  have a: "door_hitbox example_knight = (116, 484, 32, 16)"
    by (simp add: door_hitbox_def example_knight_def)
  have b: "0 \<le> hero_width example_knight"
    by (simp add: example_knight_def)
  have c: "4 dvd hero_width example_knight"
    by (simp add: example_knight_def)
  from C4_door_hitbox [OF a b] a b c show ?thesis by simp
qed

subsection \<open>The concrete run\<close>

lemmas ex_defs = started_game_def run_of_def select_hero_def initialize_game_def cleanup_def
  initialize_dungeon_def create_hero_def initialize_hero_def group_add_def place_new_hero_def
  hero_type_value_def set_game_state_def Game_init_def example_collab_def example_dungeon_def
  get_current_room_def start_room_def normal_room_def boss_room_def example_knight_def

lemma started_fields:
  "state started_game = PLAYING"
  "active_hero started_game = Some 0"
  "heroes started_game = [(Some KNIGHT, 0)]"
  "current_room started_game = Some start_room"
  "dungeon started_game = Some example_dungeon"
  "selected_hero_type started_game = Some KNIGHT"
  "dungeon_template started_game = SQUARE"
  "play_time started_game = 0"
  "enemies started_game = []"
  "width started_game = 800"
  "height started_game = 600"
  "camera_x started_game = 0"
  "hero_store started_game 0 = example_knight"
  "is_transitioning (transition started_game) = False"
  by (simp_all add: ex_defs)


subsection \<open>Hero selection and creation\<close>

text \<open>
  C8: for every value that is not a member of \<^verbatim>\<open>HeroType\<close>, \<^verbatim>\<open>select_hero\<close>
  and \<^verbatim>\<open>_create_hero\<close> raise \<^verbatim>\<open>ValueError\<close> before any assignment: the game
  object that the exception leaves behind is the one the call received.
\<close>

theorem C8_unrecognized_hero_type_rejected:
  "\<not> isinstance_HeroType v \<Longrightarrow>
     select_hero C v g = Inl (ValueError, g) \<and> create_hero C v px py g = Inl (ValueError, g)"
  by (cases v) (simp_all add: select_hero_def create_hero_def)

theorem C8_unrecognized_hero_type_rejected_witness:
  "\<not> isinstance_HeroType (PyStr ''wizard'')
   \<and> select_hero example_collab (PyStr ''wizard'') started_game = Inl (ValueError, started_game)
   \<and> create_hero example_collab (PyStr ''wizard'') (PyInt 0) (PyInt 0) started_game
       = Inl (ValueError, started_game)"
proof -
  have h: "\<not> isinstance_HeroType (PyStr ''wizard'')" by simp
  from C8_unrecognized_hero_type_rejected [OF h] h show ?thesis by simp
qed

subsection \<open>Room bounds\<close>

lemma clamp_hero_bounds:
  assumes "hero_width h \<le> room_width r"
  shows "0 \<le> hero_x (clamp_hero r h)"
    and "hero_x (clamp_hero r h) + hero_width (clamp_hero r h) \<le> room_width r"
    and "hero_y (clamp_hero r h) + hero_height (clamp_hero r h) \<le> floor_y r"
  using assms by (auto simp: clamp_hero_def Let_def)

lemma enforce_room_bounds_store:
  "active_hero g = Some a \<Longrightarrow> current_room g = Some r \<Longrightarrow>
     hero_store (enforce_room_bounds g) a = clamp_hero r (hero_store g a)"
  by (simp add: enforce_room_bounds_def)

lemma enforce_room_bounds_transition:
  "transition (enforce_room_bounds g) = transition g"
  by (simp add: enforce_room_bounds_def split: option.splits)

text \<open>
  C7, as stated, promises \<open>0 \<le> x\<close> and \<open>x + width \<le> room.width\<close> for any
  hero and room. A hero 100 wide in a room 50 wide is moved to \<open>x = -50\<close> by the
  right-boundary branch, which runs after the left-boundary branch.
\<close>

theorem C7_wide_hero_counterexample:
  "active_hero wide_hero_game = Some 0
   \<and> current_room wide_hero_game = Some (start_room\<lparr>room_width := 50\<rparr>)
   \<and> hero_x (hero_store (enforce_room_bounds wide_hero_game) 0) = - 50
   \<and> \<not> 0 \<le> hero_x (hero_store (enforce_room_bounds wide_hero_game) 0)"
  by (simp add: enforce_room_bounds_def clamp_hero_def wide_hero_game_def started_fields
      start_room_def example_knight_def)

text \<open>
  C7, amended: on a PLAYING tick, once the transition manager has been updated, the
  room bounds are enforced before anything else; for an active hero no wider than the
  current room the hero's box then satisfies \<open>0 \<le> x\<close>, \<open>x + width \<le> room.width\<close> and
  \<open>y + height \<le> room.floor_y\<close>. The clamping does not depend on the collision step:
  the tick continues with the gated block only when no transition is active, and on
  a tick during a transition the clamped state is the result of the tick.
\<close>

theorem C7_room_bounds:
  assumes "state g = PLAYING"
    and "transition_step C rnd dt g = Inr g1"
    and "active_hero g1 = Some a"
    and "current_room g1 = Some r"
    and "hero_width (hero_store g1 a) \<le> room_width r"
  shows "0 \<le> hero_x (hero_store (enforce_room_bounds g1) a)
    \<and> hero_x (hero_store (enforce_room_bounds g1) a)
        + hero_width (hero_store (enforce_room_bounds g1) a) \<le> room_width r
    \<and> hero_y (hero_store (enforce_room_bounds g1) a)
        + hero_height (hero_store (enforce_room_bounds g1) a) \<le> floor_y r
    \<and> update C rnd dt ks g =
        (if is_transitioning (transition g1) then Inr (enforce_room_bounds g1)
         else playing_tick C dt ks (enforce_room_bounds g1))"
proof -
  have st: "hero_store (enforce_room_bounds g1) a = clamp_hero r (hero_store g1 a)"
    using assms(3,4) by (rule enforce_room_bounds_store)
  have upd: "update C rnd dt ks g =
        (if is_transitioning (transition g1) then Inr (enforce_room_bounds g1)
         else playing_tick C dt ks (enforce_room_bounds g1))"
    using assms(1,2) by (simp add: update_def Let_def enforce_room_bounds_transition)
  from clamp_hero_bounds [OF assms(5)] st upd show ?thesis by simp
qed


lemma entering_fields:
  "state (entering_room c e) = PLAYING"
  "active_hero (entering_room c e) = Some 0"
  "current_room (entering_room c e) = Some start_room"
  "dungeon (entering_room c e) = Some (example_dungeon\<lparr>dm_current := c\<rparr>)"
  "enemies (entering_room c e) = []"
  "width (entering_room c e) = 800"
  "height (entering_room c e) = 600"
  "camera_x (entering_room c e) = 0"
  "hero_store (entering_room c e) 0 = example_knight\<lparr>hero_x := 1500\<rparr>"
  "transition (entering_room c e) = \<lparr>is_transitioning = True, tm_elapsed = e, tm_duration = 8 / 10,
                       tm_callback_pending = True\<rparr>"
  by (simp_all add: entering_room_def started_fields)

lemma transition_step_early:
  "transition_step example_collab example_rng (2 / 100) (entering_room (1, 0) (1 / 10))
     = Inr (entering_room (1, 0) (12 / 100))"
  by (simp add: transition_step_def tm_update_def entering_room_def Let_def)

theorem C7_room_bounds_witness:
  "state (entering_room (1, 0) (1 / 10)) = PLAYING
   \<and> transition_step example_collab example_rng (2 / 100) (entering_room (1, 0) (1 / 10))
       = Inr (entering_room (1, 0) (12 / 100))
   \<and> active_hero (entering_room (1, 0) (12 / 100)) = Some 0
   \<and> current_room (entering_room (1, 0) (12 / 100)) = Some start_room
   \<and> hero_width (hero_store (entering_room (1, 0) (12 / 100)) 0) \<le> room_width start_room
   \<and> hero_x (hero_store (enforce_room_bounds (entering_room (1, 0) (12 / 100))) 0)
        + hero_width (hero_store (enforce_room_bounds (entering_room (1, 0) (12 / 100))) 0)
       \<le> room_width start_room
   \<and> update example_collab example_rng (2 / 100) no_keys (entering_room (1, 0) (1 / 10))
       = Inr (enforce_room_bounds (entering_room (1, 0) (12 / 100)))"
proof -
  have a: "state (entering_room (1, 0) (1 / 10)) = PLAYING"
    by (simp add: entering_fields)
  note b = transition_step_early
  have c: "active_hero (entering_room (1, 0) (12 / 100)) = Some 0"
    by (simp add: entering_fields)
  have d: "current_room (entering_room (1, 0) (12 / 100)) = Some start_room"
    by (simp add: entering_fields)
  have e: "hero_width (hero_store (entering_room (1, 0) (12 / 100)) 0) \<le> room_width start_room"
    by (simp add: entering_fields example_knight_def start_room_def)
  have f: "is_transitioning (transition (entering_room (1, 0) (12 / 100)))"
    by (simp add: entering_fields)
  from C7_room_bounds [OF a b c d e, of no_keys] a b c d e f show ?thesis by simp
qed

subsection \<open>Construction of a tile map\<close>

text \<open>
  C10: for every file name and every environment (file contents, sprite sheet, surface
  creation) the constructor of \<^verbatim>\<open>TileMap\<close> raises; when \<^verbatim>\<open>load_tiles(filename)\<close>
  and the creation of the surface succeed, the exception is the \<^verbatim>\<open>TypeError\<close> of the
  second call \<^verbatim>\<open>self.load_tiles()\<close>, which passes no file name.
\<close>

theorem C10_TileMap_never_constructed:
  "(\<exists>e. TileMap_init E filename = Inl e)
   \<and> (\<forall>ts s w h.
        load_tiles E \<lparr>tile_size = 16, start_x = 0, start_y = 0, tiles = None, map_w = None,
                      map_h = None, map_surface = None\<rparr> [filename] = Inr (ts, s)
        \<longrightarrow> map_w s = Some w \<longrightarrow> map_h s = Some h \<longrightarrow> new_surface E (w, h) = Inr ()
        \<longrightarrow> TileMap_init E filename = Inl TypeError)"
  by (auto simp: TileMap_init_def Let_def load_tiles_def split: sum.splits prod.splits option.splits list.splits)

lemma example_load_tiles:
  "load_tiles example_tile_env \<lparr>tile_size = 16, start_x = 0, start_y = 0, tiles = None, map_w = None,
                      map_h = None, map_surface = None\<rparr> [''level.csv'']
   = Inr ([\<lparr>tile_image = ''ground.png'', tile_x = 0, tile_y = 0\<rparr>,
           \<lparr>tile_image = ''ground2.png'', tile_x = 0, tile_y = 16\<rparr>,
           \<lparr>tile_image = ''ground.png'', tile_x = 16, tile_y = 16\<rparr>],
          \<lparr>tile_size = 16, start_x = 16, start_y = 0, tiles = None, map_w = Some 32,
                      map_h = Some 32, map_surface = None\<rparr>)"
  by (simp add: load_tiles_def example_tile_env_def Tile_init_def)

theorem C10_TileMap_never_constructed_witness:
  "load_tiles example_tile_env \<lparr>tile_size = 16, start_x = 0, start_y = 0, tiles = None, map_w = None,
                      map_h = None, map_surface = None\<rparr> [''level.csv'']
   = Inr ([\<lparr>tile_image = ''ground.png'', tile_x = 0, tile_y = 0\<rparr>,
           \<lparr>tile_image = ''ground2.png'', tile_x = 0, tile_y = 16\<rparr>,
           \<lparr>tile_image = ''ground.png'', tile_x = 16, tile_y = 16\<rparr>],
          \<lparr>tile_size = 16, start_x = 16, start_y = 0, tiles = None, map_w = Some 32,
                      map_h = Some 32, map_surface = None\<rparr>)
   \<and> new_surface example_tile_env (32, 32) = Inr ()
   \<and> TileMap_init example_tile_env ''level.csv'' = Inl TypeError"
proof -
  have s: "new_surface example_tile_env (32, 32) = Inr ()"
    by (simp add: example_tile_env_def)
  from C10_TileMap_never_constructed [of example_tile_env "''level.csv''"] example_load_tiles s
  show ?thesis by simp
qed


subsection \<open>Room change and ticks during a transition\<close>

lemma spawn_regular_enemies_same:
  "spawn_regular_enemies n r rnd g = Inr g' \<Longrightarrow> g' = g"
  by (induction n arbitrary: rnd) (auto split: sum.splits prod.splits)

lemma spawn_regular_enemies_wide:
  "200 \<le> room_width r \<Longrightarrow> spawn_regular_enemies n r rnd g = Inr g"
  by (induction n arbitrary: rnd) (auto simp: randint_def split: sum.splits prod.splits)

lemma spawn_room_enemies_result:
  assumes "spawn_room_enemies C rnd g = Inr g'" and "current_room g = Some r"
  shows "current_room g' = Some r \<and> projectiles g' = projectiles g
    \<and> enemies g' = (if is_boss_room r then [new_boss C (room_width r div 2) (floor_y r - 100)] else [])"
proof (cases "is_boss_room r")
  case True
  with assms show ?thesis
    by (auto simp: spawn_room_enemies_def Let_def group_add_def)
next
  case False
  show ?thesis
  proof (cases "is_start_room r")
    case True
    with False assms show ?thesis
      by (auto simp: spawn_room_enemies_def Let_def)
  next
    case start: False
    from assms False start obtain n rnd' where
      "spawn_regular_enemies n r rnd' (g\<lparr>enemies := [], groups := (groups g)(enemy_sprites := {})\<rparr>) = Inr g'"
      by (auto simp: spawn_room_enemies_def Let_def split: sum.splits prod.splits)
    then have "g' = g\<lparr>enemies := [], groups := (groups g)(enemy_sprites := {})\<rparr>"
      by (rule spawn_regular_enemies_same)
    with False assms(2) show ?thesis by simp
  qed
qed

lemma handle_room_change_result:
  assumes "handle_room_change C rnd g = Inr g'"
  shows "projectiles g' = []
    \<and> (\<exists>r. current_room g' = Some r
          \<and> enemies g' = (if is_boss_room r then [new_boss C (room_width r div 2) (floor_y r - 100)] else []))"
proof -
  from assms obtain r where sp: "spawn_room_enemies C rnd (g\<lparr>projectiles := []\<rparr>) = Inr g'"
    and r: "current_room g' = Some r"
    by (auto simp: handle_room_change_def split: sum.splits option.splits)
  have "current_room g \<noteq> None"
  proof
    assume "current_room g = None"
    with sp have "g' = g\<lparr>projectiles := []\<rparr>" by (simp add: spawn_room_enemies_def)
    with r \<open>current_room g = None\<close> show False by simp
  qed
  then obtain r0 where r0: "current_room (g\<lparr>projectiles := []\<rparr>) = Some r0" by auto
  from spawn_room_enemies_result [OF sp r0] r show ?thesis by auto
qed

lemma reposition_returns:
  "dungeon g = Some dm \<Longrightarrow>
     \<exists>g1. reposition_hero_after_door_traversal C g = Inr g1
       \<and> current_room g1 = current_room g \<and> dungeon g1 = Some dm"
  by (auto simp: reposition_hero_after_door_traversal_def Let_def split: option.splits prod.splits)

lemma teleport_camera_current_room:
  "current_room (teleport_camera g) = current_room g"
  by (simp add: teleport_camera_def Let_def split: option.splits)

lemma spawn_room_enemies_returns:
  assumes "current_room g = Some r"
    and "is_boss_room r \<or> is_start_room r \<or> 200 \<le> room_width r"
  shows "\<exists>g'. spawn_room_enemies C rnd g = Inr g'"
  using assms
  by (auto simp: spawn_room_enemies_def Let_def randint_def spawn_regular_enemies_wide)

lemma handle_room_change_returns:
  assumes "current_room g = Some r"
    and "is_boss_room r \<or> is_start_room r \<or> 200 \<le> room_width r"
  shows "\<exists>g'. handle_room_change C rnd g = Inr g' \<and> current_room g' = Some r"
proof -
  have r: "current_room (g\<lparr>projectiles := []\<rparr>) = Some r" using assms(1) by simp
  from spawn_room_enemies_returns [OF r assms(2)] obtain g1
    where sp: "spawn_room_enemies C rnd (g\<lparr>projectiles := []\<rparr>) = Inr g1" by blast
  from spawn_room_enemies_result [OF sp r] have "current_room g1 = Some r" by simp
  with sp show ?thesis by (simp add: handle_room_change_def)
qed

text \<open>
  C3: what the room change does on the code. Whenever the dungeon manager has a current
  room that is the boss room, the start room or at least 200 wide,
  \<^verbatim>\<open>_complete_room_transition\<close> returns, the projectiles are cleared, the boss room
  holds exactly the one boss at \<open>(width div 2, floor_y - 100)\<close>, and every other room,
  the normal rooms included, holds no enemy: the claim's 1 to 3 enemies of a normal room
  are drawn and counted by the loop but never created.
\<close>

theorem C3_spawn_on_room_change:
  assumes "dungeon g = Some dm" and "get_current_room dm = Some r"
    and "is_boss_room r \<or> is_start_room r \<or> 200 \<le> room_width r"
  shows "\<exists>g'. complete_room_transition C rnd g = Inr g'
    \<and> current_room g' = Some r
    \<and> projectiles g' = []
    \<and> (is_boss_room r \<longrightarrow> enemies g' = [new_boss C (room_width r div 2) (floor_y r - 100)])
    \<and> (\<not> is_boss_room r \<longrightarrow> enemies g' = [])"
proof -
  have d: "dungeon (g\<lparr>current_room := get_current_room dm\<rparr>) = Some dm"
    using assms(1) by simp
  from reposition_returns [OF d] obtain g1 where
    g1: "reposition_hero_after_door_traversal C (g\<lparr>current_room := get_current_room dm\<rparr>) = Inr g1"
    and r1: "current_room g1 = Some r"
    using assms(2) by auto
  have r2: "current_room (teleport_camera g1) = Some r"
    using r1 by (simp add: teleport_camera_current_room)
  from handle_room_change_returns [OF r2 assms(3)] obtain g2 where
    g2: "handle_room_change C rnd (teleport_camera g1) = Inr g2" and r3: "current_room g2 = Some r"
    by blast
  have res: "complete_room_transition C rnd g = Inr (g2\<lparr>pending_door := None\<rparr>)"
    using assms(1) g1 g2 by (simp add: complete_room_transition_def)
  from handle_room_change_result [OF g2] r3 res show ?thesis by auto
qed

theorem C3_spawn_on_room_change_witness:
  "dungeon (entering_room (1, 0) (41 / 100)) = Some (example_dungeon\<lparr>dm_current := (1, 0)\<rparr>)
   \<and> get_current_room (example_dungeon\<lparr>dm_current := (1, 0)\<rparr>) = Some normal_room
   \<and> \<not> is_boss_room normal_room \<and> \<not> is_start_room normal_room \<and> 200 \<le> room_width normal_room
   \<and> complete_room_transition example_collab example_rng (entering_room (1, 0) (41 / 100))
       = Inr (after_room_change (1, 0))
   \<and> current_room (after_room_change (1, 0)) = Some normal_room
   \<and> enemies (after_room_change (1, 0)) = []
   \<and> length (enemies (after_room_change (1, 0))) < 1"
proof -
  have a: "dungeon (entering_room (1, 0) (41 / 100)) = Some (example_dungeon\<lparr>dm_current := (1, 0)\<rparr>)"
    by (simp add: entering_fields)
  have b: "get_current_room (example_dungeon\<lparr>dm_current := (1, 0)\<rparr>) = Some normal_room"
    by (simp add: get_current_room_def example_dungeon_def)
  have k: "\<not> is_boss_room normal_room" "\<not> is_start_room normal_room" "200 \<le> room_width normal_room"
    by (simp_all add: is_boss_room_def is_start_room_def normal_room_def)
  then have c: "is_boss_room normal_room \<or> is_start_room normal_room \<or> 200 \<le> room_width normal_room"
    by simp
  from C3_spawn_on_room_change [OF a b c, of example_collab example_rng] k(1)
  obtain g' where g': "complete_room_transition example_collab example_rng (entering_room (1, 0) (41 / 100)) = Inr g'"
    and e: "enemies g' = []" and r: "current_room g' = Some normal_room"
    by auto
  from g' have "after_room_change (1, 0) = g'"
    by (simp add: after_room_change_def run_of_def)
  with g' e r a b k show ?thesis by simp
qed

lemma enforce_room_bounds_fields:
  "state (enforce_room_bounds g) = state g"
  "enemies (enforce_room_bounds g) = enemies g"
  "camera_x (enforce_room_bounds g) = camera_x g"
  "camera_y (enforce_room_bounds g) = camera_y g"
  "projectiles (enforce_room_bounds g) = projectiles g"
  "dungeon (enforce_room_bounds g) = dungeon g"
  "current_room (enforce_room_bounds g) = current_room g"
  "pending_door (enforce_room_bounds g) = pending_door g"
  "heroes (enforce_room_bounds g) = heroes g"
  "active_hero (enforce_room_bounds g) = active_hero g"
  by (simp_all add: enforce_room_bounds_def split: option.splits)

lemma clamp_hero_fields:
  "hero_health (clamp_hero r h) = hero_health h"
  "hero_is_alive (clamp_hero r h) = hero_is_alive h"
  "hero_width (clamp_hero r h) = hero_width h"
  "hero_height (clamp_hero r h) = hero_height h"
  by (simp_all add: clamp_hero_def Let_def)

lemma enforce_room_bounds_hero:
  "hero_store (enforce_room_bounds g) b =
     (case (active_hero g, current_room g) of
        (Some a, Some r) \<Rightarrow> if b = a then clamp_hero r (hero_store g a) else hero_store g b
      | _ \<Rightarrow> hero_store g b)"
  by (simp add: enforce_room_bounds_def split: option.splits)

text \<open>
  C6, amended: on a PLAYING tick on which the transition is still active after the timer
  has advanced and the completion callback does not fire, the tick is the timer update
  followed by the room-bounds clamping and nothing else: no input, collision, door or
  camera step runs, and the game state, the enemies, the camera, the projectiles, the
  dungeon, the rooms and every hero's health are unchanged; the active hero's box is the
  clamped one and every other hero is untouched.
\<close>

theorem C6_transition_tick:
  assumes "state g = PLAYING"
    and "tm_update dt (transition g) = (tm', False)"
    and "is_transitioning tm'"
  shows "\<exists>g'. update C rnd dt ks g = Inr g'
    \<and> g' = enforce_room_bounds (g\<lparr>transition := tm'\<rparr>)
    \<and> state g' = state g
    \<and> enemies g' = enemies g
    \<and> camera_x g' = camera_x g \<and> camera_y g' = camera_y g
    \<and> projectiles g' = projectiles g
    \<and> dungeon g' = dungeon g \<and> current_room g' = current_room g
    \<and> pending_door g' = pending_door g
    \<and> heroes g' = heroes g \<and> active_hero g' = active_hero g
    \<and> (\<forall>b. hero_health (hero_store g' b) = hero_health (hero_store g b)
            \<and> hero_is_alive (hero_store g' b) = hero_is_alive (hero_store g b))
    \<and> (\<forall>b. hero_store g' b =
            (case (active_hero g, current_room g) of
               (Some a, Some r) \<Rightarrow> if b = a then clamp_hero r (hero_store g a) else hero_store g b
             | _ \<Rightarrow> hero_store g b))"
proof -
  have ts: "transition_step C rnd dt g = Inr (g\<lparr>transition := tm'\<rparr>)"
    using assms(2) by (simp add: transition_step_def)
  have up: "update C rnd dt ks g = Inr (enforce_room_bounds (g\<lparr>transition := tm'\<rparr>))"
    using assms(1,3) ts by (simp add: update_def Let_def enforce_room_bounds_transition)
  have hs: "\<forall>b. hero_store (enforce_room_bounds (g\<lparr>transition := tm'\<rparr>)) b =
            (case (active_hero g, current_room g) of
               (Some a, Some r) \<Rightarrow> if b = a then clamp_hero r (hero_store g a) else hero_store g b
             | _ \<Rightarrow> hero_store g b)"
    by (simp add: enforce_room_bounds_hero split: option.splits)
  have hh: "\<forall>b. hero_health (hero_store (enforce_room_bounds (g\<lparr>transition := tm'\<rparr>)) b)
                 = hero_health (hero_store g b)
            \<and> hero_is_alive (hero_store (enforce_room_bounds (g\<lparr>transition := tm'\<rparr>)) b)
                 = hero_is_alive (hero_store g b)"
    by (simp add: enforce_room_bounds_hero clamp_hero_fields split: option.splits)
  from up hs hh show ?thesis
    by (simp add: enforce_room_bounds_fields)
qed

lemma tm_update_early:
  "tm_update (2 / 100) (transition (entering_room (1, 0) (1 / 10)))
     = (\<lparr>is_transitioning = True, tm_elapsed = 12 / 100, tm_duration = 8 / 10,
         tm_callback_pending = True\<rparr>, False)"
  by (simp add: tm_update_def entering_fields Let_def)

theorem C6_transition_tick_witness:
  "state (entering_room (1, 0) (1 / 10)) = PLAYING
   \<and> tm_update (2 / 100) (transition (entering_room (1, 0) (1 / 10)))
       = (\<lparr>is_transitioning = True, tm_elapsed = 12 / 100, tm_duration = 8 / 10,
           tm_callback_pending = True\<rparr>, False)
   \<and> update example_collab example_rng (2 / 100) no_keys (entering_room (1, 0) (1 / 10))
       = Inr (enforce_room_bounds (entering_room (1, 0) (12 / 100)))
   \<and> enemies (enforce_room_bounds (entering_room (1, 0) (12 / 100)))
       = enemies (entering_room (1, 0) (1 / 10))"
proof -
  have a: "state (entering_room (1, 0) (1 / 10)) = PLAYING"
    by (simp add: entering_fields)
  have c: "is_transitioning \<lparr>is_transitioning = True, tm_elapsed = 12 / 100, tm_duration = 8 / 10,
         tm_callback_pending = True\<rparr>"
    by simp
  have e: "(entering_room (1, 0) (1 / 10))\<lparr>transition := \<lparr>is_transitioning = True, tm_elapsed = 12 / 100,
         tm_duration = 8 / 10, tm_callback_pending = True\<rparr>\<rparr> = entering_room (1, 0) (12 / 100)"
    by (simp add: entering_room_def)
  from C6_transition_tick [OF a tm_update_early c, of example_collab example_rng no_keys]
    a tm_update_early e
  show ?thesis by auto
qed

lemma midpoint_update:
  "update example_collab example_rng (2 / 100) no_keys (entering_room (2, 0) (39 / 100))
     = Inr midpoint_result"
  by (simp add: midpoint_result_def run_of_def update_def transition_step_def tm_update_def
      complete_room_transition_def entering_fields
      reposition_hero_after_door_traversal_def teleport_camera_def handle_room_change_def
      spawn_room_enemies_def is_boss_room_def is_start_room_def group_add_def
      enforce_room_bounds_def
      example_collab_def example_dungeon_def get_current_room_def boss_room_def Let_def)

text \<open>
  C6, as stated, covers every tick during a transition. On the tick on which the timer
  crosses the midpoint, the manager's callback \<^verbatim>\<open>_complete_room_transition\<close> runs
  inside \<^verbatim>\<open>update\<close>: the transition is active before and after the tick, yet the
  hero moves from \<open>x = 1500\<close> (inside the room bounds) to the spawn position
  \<open>x = 100\<close> and the enemies list goes from empty to the boss.
\<close>

theorem C6_midpoint_counterexample:
  "state (entering_room (2, 0) (39 / 100)) = PLAYING
   \<and> is_transitioning (transition (entering_room (2, 0) (39 / 100)))
   \<and> update example_collab example_rng (2 / 100) no_keys (entering_room (2, 0) (39 / 100))
       = Inr midpoint_result
   \<and> is_transitioning (transition midpoint_result)
   \<and> enemies (entering_room (2, 0) (39 / 100)) = []
   \<and> enemies midpoint_result
       = [\<lparr>enemy_is_boss = True, enemy_x = 800, enemy_y = 400, enemy_is_alive = True\<rparr>]
   \<and> hero_x (hero_store (entering_room (2, 0) (39 / 100)) 0) = 1500
   \<and> hero_x (clamp_hero start_room (hero_store (entering_room (2, 0) (39 / 100)) 0)) = 1500
   \<and> hero_x (hero_store midpoint_result 0) = 100"
  apply (simp add: midpoint_update entering_fields)
  apply (simp add: midpoint_result_def run_of_def update_def transition_step_def tm_update_def
      complete_room_transition_def entering_fields
      reposition_hero_after_door_traversal_def teleport_camera_def handle_room_change_def
      spawn_room_enemies_def is_boss_room_def is_start_room_def group_add_def
      enforce_room_bounds_def clamp_hero_def example_knight_def start_room_def
      example_collab_def example_dungeon_def get_current_room_def boss_room_def Let_def)
  done

subsection \<open>Saving and loading\<close>

lemma started_next_ref: "next_ref started_game = Suc 0"
  by (simp add: ex_defs)

text \<open>
  C1, as stated, leaves the run untouched on every failing load. A record whose
  \<^verbatim>\<open>hero_position\<close> has three entries fails at the tuple assignment, after
  \<^verbatim>\<open>load_game\<close> has overwritten the play time, the selected hero type and the
  template and has rebuilt the dungeon and the hero: the call returns \<^verbatim>\<open>False\<close>
  and the run has changed.
\<close>

theorem C1_partial_load_counterexample:
  "fst (load_game example_collab (Some long_position_save) started_game) = False
   \<and> selected_hero_type started_game = Some KNIGHT
   \<and> selected_hero_type (snd (load_game example_collab (Some long_position_save) started_game))
       = Some ARCHER
   \<and> dungeon_template started_game = SQUARE
   \<and> dungeon_template (snd (load_game example_collab (Some long_position_save) started_game)) = DEMO
   \<and> play_time started_game = 0
   \<and> play_time (snd (load_game example_collab (Some long_position_save) started_game)) = 99
   \<and> heroes started_game = [(Some KNIGHT, 0)]
   \<and> heroes (snd (load_game example_collab (Some long_position_save) started_game))
       = [(Some ARCHER, 1)]"
  by (simp add: load_game_def long_position_save_def dict_is_empty_def HeroType_getitem_def
      DungeonTemplate_getitem_def rebuild_game_def raising_then_def set_hero_position_def
      started_fields started_next_ref initialize_game_def cleanup_def
      initialize_dungeon_def create_hero_def initialize_hero_def group_add_def place_new_hero_def
      hero_type_value_def example_collab_def example_dungeon_def
      get_current_room_def start_room_def example_knight_def Let_def)

text \<open>
  C1, amended: when the load fails while \<^verbatim>\<open>load_game\<close> is still extracting the
  data (no record because the file is missing or corrupted, an empty record, a missing
  required field, or a hero-type or template name that is no member of its enumeration),
  \<^verbatim>\<open>load_game\<close> returns \<^verbatim>\<open>False\<close> and the game object is exactly the one before
  the call.
\<close>

theorem C1_failed_extraction_leaves_run_unchanged:
  "extraction_fails loaded \<Longrightarrow> load_game C loaded g = (False, g)"
  by (auto simp: extraction_fails_def load_game_def split: option.splits sum.splits)

theorem C1_failed_extraction_leaves_run_unchanged_witness:
  "extraction_fails None \<and> load_game example_collab None started_game = (False, started_game)
   \<and> extraction_fails (Some no_health_save)
   \<and> load_game example_collab (Some no_health_save) started_game = (False, started_game)"
proof -
  have a: "extraction_fails None" by (simp add: extraction_fails_def)
  have b: "extraction_fails (Some no_health_save)"
    by (simp add: extraction_fails_def no_health_save_def)
  from C1_failed_extraction_leaves_run_unchanged [OF a, of example_collab started_game]
    C1_failed_extraction_leaves_run_unchanged [OF b, of example_collab started_game] a b
  show ?thesis by simp
qed

text \<open>
  The second loader assigns the hero type before it reads the template: a record
  without the template key makes it return \<^verbatim>\<open>False\<close> with the hero type changed.
\<close>

lemma load_game_state_assigns_early:
  "fst (load_game_state example_collab no_template_save started_game) = False
   \<and> selected_hero_type (snd (load_game_state example_collab no_template_save started_game))
       = Some ARCHER"
  by (simp add: load_game_state_def no_template_save_def HeroType_getitem_def)

lemma HeroType_getitem_name: "HeroType_getitem (HeroType_name t) = Inr t"
  by (cases t) (simp_all add: HeroType_getitem_def)

lemma DungeonTemplate_getitem_name: "DungeonTemplate_getitem (DungeonTemplate_name t) = Inr t"
  by (cases t) (simp_all add: DungeonTemplate_getitem_def)

lemma initialize_game_returns:
  assumes "selected_hero_type g = Some t"
    and "new_dungeon C (dungeon_template g) = Inr dm0"
    and "get_current_room dm0 = Some r0"
  shows "\<exists>g1. initialize_game C g = Inr g1
    \<and> active_hero g1 = Some (next_ref g)
    \<and> dungeon g1 = Some dm0
    \<and> current_room g1 = Some r0
    \<and> dungeon_template g1 = dungeon_template g
    \<and> selected_hero_type g1 = Some t
    \<and> play_time g1 = play_time g"
  using assms
  by (simp add: initialize_game_def cleanup_def initialize_dungeon_def create_hero_def
      initialize_hero_def group_add_def place_new_hero_def hero_type_value_def Let_def
      split: prod.splits)

text \<open>
  C2: what saving and then loading does on the code. Let \<open>g\<close> be a game state with an
  active hero, a dungeon and a selected hero type, and let the dungeon manager, asked
  again for the saved template, build a dungeon that has a room at the saved
  coordinate. Then \<^verbatim>\<open>save_game\<close> hands a record to the persistence layer, and
  \<^verbatim>\<open>load_game\<close> on that record, in any game object \<open>g0\<close>, returns \<^verbatim>\<open>True\<close>
  with the hero's position, the hero's health, the dungeon template, the hero type, the
  play time and the coordinate tracked by the dungeon manager as they were when saving.
  \<^verbatim>\<open>Game._current_room\<close> is not reproduced: \<^verbatim>\<open>load_game\<close> never reads it again
  after \<^verbatim>\<open>set_current_room_by_coordinates\<close>, so it stays the room \<open>r0\<close> in which the
  rebuilt dungeon starts, while the dungeon manager is in the saved room \<open>r1\<close>.
\<close>

theorem C2_load_of_saved_record:
  assumes "active_hero g = Some a" and "dungeon g = Some dm" and "selected_hero_type g = Some t"
    and "new_dungeon C (dungeon_template g) = Inr dm0"
    and "get_current_room dm0 = Some r0"
    and "map_of (dm_rooms dm0) (get_current_room_position dm) = Some r1"
  shows "\<exists>gs g' a' dm'.
      save_game_record g = Some gs
    \<and> save_game persist g = persist gs
    \<and> load_game C (Some gs) g0 = (True, g')
    \<and> active_hero g' = Some a'
    \<and> hero_x (hero_store g' a') = hero_x (hero_store g a)
    \<and> hero_y (hero_store g' a') = hero_y (hero_store g a)
    \<and> hero_health (hero_store g' a') = hero_health (hero_store g a)
    \<and> dungeon_template g' = dungeon_template g
    \<and> selected_hero_type g' = Some t
    \<and> play_time g' = play_time g
    \<and> dungeon g' = Some dm'
    \<and> get_current_room_position dm' = get_current_room_position dm
    \<and> get_current_room dm' = Some r1
    \<and> current_room g' = Some r0"
proof -
  define gs where "gs =
    \<lparr>sv_hero_type = Some (HeroType_name t),
     sv_hero_position = Some [hero_x (hero_store g a), hero_y (hero_store g a)],
     sv_hero_health = Some (hero_health (hero_store g a)),
     sv_current_room = Some [fst (get_current_room_position dm), snd (get_current_room_position dm)],
     sv_dungeon_template = Some (DungeonTemplate_name (dungeon_template g)),
     sv_play_time = Some (play_time g)\<rparr>"
  have rec: "save_game_record g = Some gs"
    using assms(1-3) by (simp add: save_game_record_def gs_def)
  have sav: "save_game persist g = persist gs"
    using rec by (simp add: save_game_def)
  define gb where "gb = g0\<lparr>play_time := play_time g, selected_hero_type := Some t,
                            dungeon_template := dungeon_template g\<rparr>"
  have b1: "selected_hero_type gb = Some t" by (simp add: gb_def)
  have b2: "new_dungeon C (dungeon_template gb) = Inr dm0" using assms(4) by (simp add: gb_def)
  from initialize_game_returns [OF b1 b2 assms(5)] obtain g1 where
    g1: "initialize_game C gb = Inr g1"
    and ah: "active_hero g1 = Some (next_ref gb)"
    and dg: "dungeon g1 = Some dm0"
    and cr: "current_room g1 = Some r0"
    and tp: "dungeon_template g1 = dungeon_template gb"
    and sh: "selected_hero_type g1 = Some t"
    and pt: "play_time g1 = play_time gb"
    by blast
  define g2 where "g2 = g1\<lparr>hero_store := (hero_store g1)
      (next_ref gb := (hero_store g1 (next_ref gb))
         \<lparr>hero_x := hero_x (hero_store g a), hero_y := hero_y (hero_store g a)\<rparr>)\<rparr>"
  define g3 where "g3 = g2\<lparr>hero_store := (hero_store g2)
      (next_ref gb := (hero_store g2 (next_ref gb))\<lparr>hero_health := hero_health (hero_store g a)\<rparr>)\<rparr>"
  define dm' where "dm' = dm0\<lparr>dm_current := get_current_room_position dm\<rparr>"
  define g4 where "g4 = g3\<lparr>dungeon := Some dm'\<rparr>"
  have p: "set_hero_position [hero_x (hero_store g a), hero_y (hero_store g a)] g1 = Inr g2"
    using ah by (simp add: set_hero_position_def g2_def)
  have h: "set_hero_health (hero_health (hero_store g a)) g2 = Inr g3"
    using ah by (simp add: set_hero_health_def g2_def g3_def)
  have sc: "set_current_room_by_coordinates (fst (get_current_room_position dm))
              (snd (get_current_room_position dm)) dm0 = dm'"
    using assms(6) by (simp add: set_current_room_by_coordinates_def dm'_def)
  have c: "set_room_coords [fst (get_current_room_position dm), snd (get_current_room_position dm)] g3
            = Inr g4"
    using dg sc by (simp add: set_room_coords_def g2_def g3_def g4_def)
  have rb: "rebuild_game C t [hero_x (hero_store g a), hero_y (hero_store g a)]
              (hero_health (hero_store g a))
              [fst (get_current_room_position dm), snd (get_current_room_position dm)]
              (dungeon_template g) (g0\<lparr>play_time := play_time g\<rparr>) = Inr g4"
    using g1 p h c by (simp add: rebuild_game_def raising_then_def gb_def)
  have ld: "load_game C (Some gs) g0 = (True, g4)"
    using rb
    by (simp add: load_game_def gs_def dict_is_empty_def HeroType_getitem_name
        DungeonTemplate_getitem_name)
  have f1: "active_hero g4 = Some (next_ref gb)"
    using ah by (simp add: g2_def g3_def g4_def)
  have f2: "hero_x (hero_store g4 (next_ref gb)) = hero_x (hero_store g a)"
    "hero_y (hero_store g4 (next_ref gb)) = hero_y (hero_store g a)"
    "hero_health (hero_store g4 (next_ref gb)) = hero_health (hero_store g a)"
    by (simp_all add: g2_def g3_def g4_def)
  have f3: "dungeon g4 = Some dm'" by (simp add: g4_def)
  have f4: "get_current_room_position dm' = get_current_room_position dm"
    by (simp add: dm'_def get_current_room_position_def)
  have f5: "dungeon_template g4 = dungeon_template g"
    using tp by (simp add: g2_def g3_def g4_def gb_def)
  have f6: "current_room g4 = Some r0"
    using cr by (simp add: g2_def g3_def g4_def)
  have f7: "selected_hero_type g4 = Some t"
    using sh by (simp add: g2_def g3_def g4_def)
  have f8: "play_time g4 = play_time g"
    using pt by (simp add: g2_def g3_def g4_def gb_def)
  have f9: "get_current_room dm' = Some r1"
    using assms(6) by (simp add: dm'_def get_current_room_def)
  from rec sav ld f1 f2 f3 f4 f5 f6 f7 f8 f9 show ?thesis by blast
qed

lemma played_fields:
  "active_hero played_game = Some 0"
  "dungeon played_game = Some (example_dungeon\<lparr>dm_current := (1, 0)\<rparr>)"
  "selected_hero_type played_game = Some KNIGHT"
  "dungeon_template played_game = SQUARE"
  "hero_store played_game 0 = example_knight\<lparr>hero_x := 700, hero_health := 200\<rparr>"
  "current_room played_game = Some normal_room"
  by (simp_all add: played_game_def started_fields)

theorem C2_load_of_saved_record_witness:
  "active_hero played_game = Some 0
   \<and> dungeon played_game = Some (example_dungeon\<lparr>dm_current := (1, 0)\<rparr>)
   \<and> selected_hero_type played_game = Some KNIGHT
   \<and> new_dungeon example_collab (dungeon_template played_game) = Inr example_dungeon
   \<and> get_current_room example_dungeon = Some start_room
   \<and> map_of (dm_rooms example_dungeon)
        (get_current_room_position (example_dungeon\<lparr>dm_current := (1, 0)\<rparr>)) = Some normal_room
   \<and> current_room played_game = Some normal_room
   \<and> room_coord normal_room = (1, 0)
   \<and> room_coord start_room = (0, 0)
   \<and> (\<exists>gs g' a' dm'.
        save_game_record played_game = Some gs
      \<and> load_game example_collab (Some gs) (Game_init 800 600) = (True, g')
      \<and> active_hero g' = Some a'
      \<and> hero_x (hero_store g' a') = 700
      \<and> hero_y (hero_store g' a') = 436
      \<and> hero_health (hero_store g' a') = 200
      \<and> dungeon_template g' = SQUARE
      \<and> dungeon g' = Some dm'
      \<and> get_current_room_position dm' = (1, 0)
      \<and> get_current_room dm' = Some normal_room
      \<and> current_room g' = Some start_room)"
proof -
  note a = played_fields(1) and b = played_fields(2) and c = played_fields(3)
  have d: "new_dungeon example_collab (dungeon_template played_game) = Inr example_dungeon"
    by (simp add: example_collab_def)
  have e: "get_current_room example_dungeon = Some start_room"
    by (simp add: get_current_room_def example_dungeon_def)
  have f: "map_of (dm_rooms example_dungeon)
        (get_current_room_position (example_dungeon\<lparr>dm_current := (1, 0)\<rparr>)) = Some normal_room"
    by (simp add: get_current_room_position_def example_dungeon_def)
  have v: "hero_x (hero_store played_game 0) = 700" "hero_y (hero_store played_game 0) = 436"
    "hero_health (hero_store played_game 0) = 200"
    "get_current_room_position (example_dungeon\<lparr>dm_current := (1, 0)\<rparr>) = (1, 0)"
    by (simp_all add: played_fields example_knight_def get_current_room_position_def)
  have k: "room_coord normal_room = (1, 0)" "room_coord start_room = (0, 0)"
    by (simp_all add: normal_room_def start_room_def)
  from C2_load_of_saved_record [OF a b c d e f, of "\<lambda>_. True" "Game_init 800 600"]
  obtain gs g' a' dm' where r:
    "save_game_record played_game = Some gs"
    "load_game example_collab (Some gs) (Game_init 800 600) = (True, g')"
    "active_hero g' = Some a'"
    "hero_x (hero_store g' a') = hero_x (hero_store played_game 0)"
    "hero_y (hero_store g' a') = hero_y (hero_store played_game 0)"
    "hero_health (hero_store g' a') = hero_health (hero_store played_game 0)"
    "dungeon_template g' = dungeon_template played_game"
    "dungeon g' = Some dm'"
    "get_current_room_position dm'
       = get_current_room_position (example_dungeon\<lparr>dm_current := (1, 0)\<rparr>)"
    "get_current_room dm' = Some normal_room"
    "current_room g' = Some start_room"
    by blast
  from r(4-7,9) v played_fields(4) have w:
    "hero_x (hero_store g' a') = 700" "hero_y (hero_store g' a') = 436"
    "hero_health (hero_store g' a') = 200" "get_current_room_position dm' = (1, 0)"
    "dungeon_template g' = SQUARE"
    by simp_all
  from r(1-3,8,10,11) w have "\<exists>gs g' a' dm'.
        save_game_record played_game = Some gs
      \<and> load_game example_collab (Some gs) (Game_init 800 600) = (True, g')
      \<and> active_hero g' = Some a'
      \<and> hero_x (hero_store g' a') = 700
      \<and> hero_y (hero_store g' a') = 436
      \<and> hero_health (hero_store g' a') = 200
      \<and> dungeon_template g' = SQUARE
      \<and> dungeon g' = Some dm'
      \<and> get_current_room_position dm' = (1, 0)
      \<and> get_current_room dm' = Some normal_room
      \<and> current_room g' = Some start_room"
    by blast
  with a b c d e f k played_fields(6) show ?thesis by blast
qed

end
